theory Spec2Isabelle
  imports Complex_Main "HOL-Library.Char_ord" "HOL-Library.List_Lexorder" "HOL-Library.Multiset"
begin

section \<open>The Python runtime the tracker relies on\<close>

text \<open>
  Strings are \<^typ>\<open>string\<close>, compared lexicographically by character code as Python
  compares \<open>str\<close> values. The character-level functions below (\<open>lower\<close>, \<open>strip\<close>,
  \<open>int\<close>) are the ASCII fragment of the Python ones; \<open>int\<close> is read without the bound
  some Python versions put on the number of digits.

  A call that raises is a result \<open>Inl\<close> of the exception; a call that returns is \<open>Inr\<close> of
  its value, paired with the storage it leaves where the call reads or writes the file.
\<close>

subsection \<open>Strings\<close>

definition startswith :: "string \<Rightarrow> string \<Rightarrow> bool" where
  "startswith s p = (take (length p) s = p)"

definition remove_dashes :: "string \<Rightarrow> string" where
  \<comment> \<open>\<open>date.replace('-', '')\<close>\<close>
  "remove_dashes s = filter (\<lambda>c. c \<noteq> CHR ''-'') s"

fun py_split :: "char \<Rightarrow> string \<Rightarrow> string list" where
  \<comment> \<open>\<open>s.split(sep)\<close> for a one-character separator: never empty\<close>
  "py_split sep [] = [[]]"
| "py_split sep (c # cs) =
     (if c = sep then [] # py_split sep cs
      else (case py_split sep cs of
              [] \<Rightarrow> [[c]]
            | w # ws \<Rightarrow> (c # w) # ws))"

definition lower_char :: "char \<Rightarrow> char" where
  "lower_char c =
     (let n = (of_char c :: nat) in if 65 \<le> n \<and> n \<le> 90 then char_of (n + 32) else c)"

definition py_lower :: "string \<Rightarrow> string" where
  "py_lower s = map lower_char s"

definition is_space :: "char \<Rightarrow> bool" where
  \<comment> \<open>the ASCII characters for which \<open>str.isspace\<close> holds\<close>
  "is_space c =
     (let n = (of_char c :: nat) in (9 \<le> n \<and> n \<le> 13) \<or> (28 \<le> n \<and> n \<le> 32))"

definition py_strip :: "string \<Rightarrow> string" where
  "py_strip s = rev (dropWhile is_space (rev (dropWhile is_space s)))"

definition truthy :: "string option \<Rightarrow> bool" where
  \<comment> \<open>\<open>if s:\<close> for an optional string: neither \<open>None\<close> nor empty\<close>
  "truthy s = (case s of None \<Rightarrow> False | Some t \<Rightarrow> t \<noteq> [])"

subsection \<open>Integers read from and written to strings\<close>

definition is_digit :: "char \<Rightarrow> bool" where
  "is_digit c = (let n = (of_char c :: nat) in 48 \<le> n \<and> n \<le> 57)"

definition digit_val :: "char \<Rightarrow> int" where
  "digit_val c = int (of_char c) - 48"

fun digits_ok :: "string \<Rightarrow> bool" where
  \<comment> \<open>digits, with single underscores allowed between two digits\<close>
  "digits_ok [] = False"
| "digits_ok [c] = is_digit c"
| "digits_ok (c # d # r) =
     (is_digit c \<and> (if d = CHR ''_'' then digits_ok r else digits_ok (d # r)))"

definition dec_value :: "string \<Rightarrow> int" where
  "dec_value s = foldl (\<lambda>a c. 10 * a + digit_val c) 0 s"

definition py_int :: "string \<Rightarrow> int option" where
  \<comment> \<open>\<open>int(s)\<close>; \<open>None\<close> stands for the \<open>ValueError\<close>\<close>
  "py_int s =
     (let t = py_strip s;
          neg = (case t of [] \<Rightarrow> False | c # _ \<Rightarrow> c = CHR ''-'');
          body = (case t of [] \<Rightarrow> [] | c # r \<Rightarrow> if c = CHR ''+'' \<or> c = CHR ''-'' then r else t)
      in if digits_ok body
         then Some ((if neg then - 1 else 1) * dec_value (filter (\<lambda>c. c \<noteq> CHR ''_'') body))
         else None)"

definition digit_char :: "nat \<Rightarrow> char" where
  "digit_char n = char_of (48 + n)"

fun dec_str :: "nat \<Rightarrow> string" where
  "dec_str n = (if n < 10 then [digit_char n] else dec_str (n div 10) @ [digit_char (n mod 10)])"

declare dec_str.simps [simp del]

definition zero_pad :: "nat \<Rightarrow> string \<Rightarrow> string" where
  "zero_pad w s = replicate (w - length s) CHR ''0'' @ s"

definition fmt_04d :: "int \<Rightarrow> string" where
  \<comment> \<open>the format specification \<open>:04d\<close>: the sign counts towards the width\<close>
  "fmt_04d n =
     (if n < 0 then CHR ''-'' # zero_pad 3 (dec_str (nat (- n))) else zero_pad 4 (dec_str (nat n)))"

subsection \<open>Floating-point numbers\<close>

text \<open>
  A finite binary64 value is given by the rational number it denotes. Every arithmetic
  result is rounded to the nearest representable value, ties to the even significand.
  Infinities, NaN, the sign of zero and overflow are left out.
\<close>

datatype f64 = F64 rat

fun bitlen :: "nat \<Rightarrow> nat" where
  "bitlen n = (if n = 0 then 0 else Suc (bitlen (n div 2)))"

declare bitlen.simps [simp del]

definition pow2 :: "int \<Rightarrow> rat" where
  "pow2 i = (if 0 \<le> i then 2 ^ nat i else 1 / 2 ^ nat (- i))"

definition round_half_even :: "rat \<Rightarrow> int" where
  "round_half_even r =
     (let f = \<lfloor>r\<rfloor>; d = r - of_int f
      in if d < 1 / 2 then f else if 1 / 2 < d then f + 1
         else if even f then f else f + 1)"

definition ilog2 :: "rat \<Rightarrow> int" where
  \<comment> \<open>for \<open>0 < a\<close>, the \<open>k\<close> with \<open>2 ^ k \<le> a < 2 ^ (k + 1)\<close>\<close>
  "ilog2 a = (if 1 \<le> a then int (bitlen (nat \<lfloor>a\<rfloor>)) - 1
              else - int (bitlen (nat (\<lceil>1 / a\<rceil> - 1))))"

definition round_binary64 :: "rat \<Rightarrow> rat" where
  \<comment> \<open>53 significant bits, exponents no smaller than the subnormal one\<close>
  "round_binary64 q =
     (if q = 0 then 0
      else let a = \<bar>q\<bar>; e = max (ilog2 a - 52) (- 1074); m = round_half_even (a / pow2 e)
           in sgn q * of_int m * pow2 e)"

fun f64_val :: "f64 \<Rightarrow> rat" where
  "f64_val (F64 q) = q"

instantiation f64 :: "{zero, plus, linorder}"
begin

definition zero_f64 :: f64 where
  "zero_f64 = F64 0"

definition plus_f64 :: "f64 \<Rightarrow> f64 \<Rightarrow> f64" where
  "plus_f64 x y = F64 (round_binary64 (f64_val x + f64_val y))"

definition less_eq_f64 :: "f64 \<Rightarrow> f64 \<Rightarrow> bool" where
  "less_eq_f64 x y = (f64_val x \<le> f64_val y)"

definition less_f64 :: "f64 \<Rightarrow> f64 \<Rightarrow> bool" where
  "less_f64 x y = (f64_val x < f64_val y)"

instance
proof
  fix x y z :: f64
  show "(x < y) = (x \<le> y \<and> \<not> y \<le> x)"
    by (auto simp: less_f64_def less_eq_f64_def)
  show "x \<le> x"
    by (simp add: less_eq_f64_def)
  show "x \<le> y \<Longrightarrow> y \<le> z \<Longrightarrow> x \<le> z"
    by (simp add: less_eq_f64_def)
  show "x \<le> y \<Longrightarrow> y \<le> x \<Longrightarrow> x = y"
    by (cases x; cases y) (simp add: less_eq_f64_def)
  show "x \<le> y \<or> y \<le> x"
    by (auto simp: less_eq_f64_def)
qed

end

definition py_round2 :: "f64 \<Rightarrow> f64" where
  \<comment> \<open>\<open>round(x, 2)\<close>: the exact value rounded half-even to two decimals, then to binary64\<close>
  "py_round2 x = F64 (round_binary64 (of_int (round_half_even (f64_val x * 100)) / 100))"

definition py_sum :: "'a::{zero, plus} list \<Rightarrow> 'a" where
  \<comment> \<open>\<open>sum(xs)\<close>: starts from 0 and adds from left to right\<close>
  "py_sum xs = foldl (+) 0 xs"

definition py_sorted :: "('b \<Rightarrow> 'k::linorder) \<Rightarrow> bool \<Rightarrow> 'b list \<Rightarrow> 'b list" where
  \<comment> \<open>\<open>sorted(xs, key=f, reverse=r)\<close>: stable; with \<open>reverse\<close> the list is reversed,
      sorted and reversed again, so equal keys keep their order\<close>
  "py_sorted f r xs = (if r then rev (sort_key f (rev xs)) else sort_key f xs)"

section \<open>models.py\<close>

record 'a expense =
  id' :: string
  date :: string
  category :: string
  amount :: 'a
  currency :: string
  note' :: string
  created_at :: string

text \<open>
  The dictionary passed to \<open>ExpenseStorage.update\<close>: for each field of \<open>Expense\<close> the new
  value when the key is present, and the keys that are no field of \<open>Expense\<close>.
\<close>

record 'a updates =
  u_id :: "string option"
  u_date :: "string option"
  u_category :: "string option"
  u_amount :: "'a option"
  u_currency :: "string option"
  u_note :: "string option"
  u_created_at :: "string option"
  u_extra :: "string list"

datatype error = ValueError string | OSError string | TypeError string

definition override :: "'b option \<Rightarrow> 'b \<Rightarrow> 'b" where
  "override new old = (case new of None \<Rightarrow> old | Some v \<Rightarrow> v)"

definition merged :: "'a updates \<Rightarrow> 'a expense \<Rightarrow> error + 'a expense" where
  \<comment> \<open>\<open>d = exp.to_dict(); d.update(updates); Expense.from_dict(d)\<close>: the constructor
      rejects a keyword that is no field\<close>
  "merged u e =
     (case u_extra u of
        k # _ \<Rightarrow> Inl (TypeError k)
      | [] \<Rightarrow> Inr \<lparr> id' = override (u_id u) (id' e),
                    date = override (u_date u) (date e),
                    category = override (u_category u) (category e),
                    amount = override (u_amount u) (amount e),
                    currency = override (u_currency u) (currency e),
                    note' = override (u_note u) (note' e),
                    created_at = override (u_created_at u) (created_at e) \<rparr>)"

section \<open>validation.py\<close>

text \<open>
  What the process reads from its surroundings: the clock, and the two library parsers
  (\<open>datetime.strptime(s, "%Y-%m-%d")\<close> succeeding, and \<open>float(s)\<close> on a string).
\<close>

record pyenv =
  today :: string
  now_stamp :: string
  strptime_ymd :: "string \<Rightarrow> bool"
  float_of_str :: "string \<Rightarrow> f64 option"

datatype py_arg = Float f64 | Str string

definition validate_date :: "pyenv \<Rightarrow> string \<Rightarrow> bool" where
  "validate_date env date_str = strptime_ymd env date_str"

definition validate_amount :: "'a::{zero, linorder} \<Rightarrow> bool" where
  "validate_amount a = (if a \<le> 0 then False else True)"

definition validate_category :: "string \<Rightarrow> bool" where
  "validate_category c = (if c = [] \<or> py_strip c = [] then False else True)"

definition format_date :: "pyenv \<Rightarrow> string option \<Rightarrow> error + string" where
  "format_date env date_str =
     (case date_str of
        None \<Rightarrow> Inr (today env)
      | Some s \<Rightarrow>
          if s = [] \<or> py_lower s = ''today'' then Inr (today env)
          else if \<not> validate_date env s
          then Inl (ValueError ''Error: date must be in YYYY-MM-DD format'')
          else Inr s)"

definition py_float :: "pyenv \<Rightarrow> py_arg \<Rightarrow> error + f64" where
  \<comment> \<open>\<open>float(a)\<close>; the message of its \<open>ValueError\<close> ends in the string it was given\<close>
  "py_float env a =
     (case a of
        Float x \<Rightarrow> Inr x
      | Str s \<Rightarrow>
          (case float_of_str env s of
             Some x \<Rightarrow> Inr x
           | None \<Rightarrow> Inl (ValueError (''could not convert string to float: '' @ s))))"

fun contains :: "string \<Rightarrow> string \<Rightarrow> bool" where
  \<comment> \<open>\<open>sub in s\<close>\<close>
  "contains sub [] = (sub = [])"
| "contains sub (c # cs) = (take (length sub) (c # cs) = sub \<or> contains sub cs)"

definition format_amount :: "pyenv \<Rightarrow> py_arg \<Rightarrow> error + f64" where
  "format_amount env a =
     (let attempt =
            (case py_float env a of
               Inl e \<Rightarrow> Inl e
             | Inr amount_float \<Rightarrow>
                 if \<not> validate_amount amount_float
                 then Inl (ValueError ''Error: amount must be > 0'')
                 else Inr (py_round2 amount_float))
      in case attempt of
           Inl (ValueError msg) \<Rightarrow>
             if contains ''could not convert'' msg
             then Inl (ValueError ''Error: amount must be a valid number'')
             else Inl (ValueError msg)
         | other \<Rightarrow> other)"

definition format_category :: "string \<Rightarrow> error + string" where
  "format_category c =
     (if \<not> validate_category c then Inl (ValueError ''Error: category cannot be empty'')
      else Inr (py_lower (py_strip c)))"

section \<open>storage.py\<close>

text \<open>
  The file at \<open>filepath\<close> is missing, is no JSON text, holds a document whose
  \<open>expenses\<close> entry is the given list of records, or cannot be read for another reason
  (the message of that exception is kept). \<open>write_failure\<close> is the message of the
  exception the operating system answers a write with, if it refuses writes, and \<open>writes\<close>
  counts the times the file has been written.
\<close>

datatype 'a file_state =
  Missing | Invalid_JSON | Document "'a expense list" | Unreadable string

record 'a storage =
  filepath :: string
  contents :: "'a file_state"
  write_failure :: "string option"
  writes :: nat

definition ensure_file_exists :: "'a storage \<Rightarrow> error + 'a storage" where
  "ensure_file_exists st =
     (case contents st of
        Missing \<Rightarrow>
          (case write_failure st of
             Some msg \<Rightarrow> Inl (OSError msg)
           | None \<Rightarrow> Inr (st\<lparr> contents := Document [], writes := Suc (writes st) \<rparr>))
      | _ \<Rightarrow> Inr st)"

definition load_all :: "'a storage \<Rightarrow> error + ('a expense list \<times> 'a storage)" where
  "load_all st =
     (case contents st of
        Document expenses \<Rightarrow> Inr (expenses, st)
      | Invalid_JSON \<Rightarrow>
          Inl (ValueError (''Error: Data file is corrupted. Please check '' @ filepath st))
      | Missing \<Rightarrow>
          (case ensure_file_exists st of
             Inl e \<Rightarrow> Inl e
           | Inr st' \<Rightarrow> Inr ([], st'))
      | Unreadable msg \<Rightarrow> Inl (ValueError (''Error: Could not read data file - '' @ msg)))"

definition save_all :: "'a storage \<Rightarrow> 'a expense list \<Rightarrow> error + 'a storage" where
  "save_all st expenses =
     (case write_failure st of
        Some msg \<Rightarrow> Inl (ValueError (''Error: Could not write to data file - '' @ msg))
      | None \<Rightarrow> Inr (st\<lparr> contents := Document expenses, writes := Suc (writes st) \<rparr>))"

definition add :: "'a storage \<Rightarrow> 'a expense \<Rightarrow> error + 'a storage" where
  "add st e =
     (case load_all st of
        Inl err \<Rightarrow> Inl err
      | Inr (expenses, st') \<Rightarrow> save_all st' (expenses @ [e]))"

definition delete :: "'a storage \<Rightarrow> string \<Rightarrow> error + (bool \<times> 'a storage)" where
  "delete st expense_id =
     (case load_all st of
        Inl err \<Rightarrow> Inl err
      | Inr (loaded, st') \<Rightarrow>
          (let initial_count = length loaded;
               expenses = filter (\<lambda>e. id' e \<noteq> expense_id) loaded
           in if length expenses < initial_count
              then (case save_all st' expenses of
                      Inl err \<Rightarrow> Inl err
                    | Inr st'' \<Rightarrow> Inr (True, st''))
              else Inr (False, st')))"

fun first_index :: "string \<Rightarrow> 'a expense list \<Rightarrow> nat \<Rightarrow> nat option" where
  \<comment> \<open>the \<open>enumerate\<close> loop of \<open>update\<close> up to its first hit\<close>
  "first_index expense_id [] i = None"
| "first_index expense_id (e # es) i =
     (if id' e = expense_id then Some i else first_index expense_id es (Suc i))"

definition update ::
  "'a storage \<Rightarrow> string \<Rightarrow> 'a updates \<Rightarrow> error + ('a expense option \<times> 'a storage)" where
  "update st expense_id u =
     (case load_all st of
        Inl err \<Rightarrow> Inl err
      | Inr (expenses, st') \<Rightarrow>
          (case first_index expense_id expenses 0 of
             None \<Rightarrow> Inr (None, st')
           | Some i \<Rightarrow>
               (case merged u (expenses ! i) of
                  Inl err \<Rightarrow> Inl err
                | Inr e' \<Rightarrow>
                    (case save_all st' (expenses[i := e']) of
                       Inl err \<Rightarrow> Inl err
                     | Inr st'' \<Rightarrow> Inr (Some e', st'')))))"

section \<open>service.py\<close>

fun max_seq_loop :: "string \<Rightarrow> int \<Rightarrow> 'a expense list \<Rightarrow> int" where
  \<comment> \<open>the loop of \<open>generate_id\<close>, with \<open>max_seq\<close> as the accumulator\<close>
  "max_seq_loop date_prefix max_seq [] = max_seq"
| "max_seq_loop date_prefix max_seq (e # es) =
     (if startswith (id' e) date_prefix
      then (case py_int (last (py_split CHR ''-'' (id' e))) of
              Some seq \<Rightarrow> max_seq_loop date_prefix (max max_seq seq) es
            | None \<Rightarrow> max_seq_loop date_prefix max_seq es)
      else max_seq_loop date_prefix max_seq es)"

definition date_prefix_of :: "string \<Rightarrow> string" where
  "date_prefix_of d = ''EXP-'' @ remove_dashes d"

definition generate_id :: "'a storage \<Rightarrow> string \<Rightarrow> error + (string \<times> 'a storage)" where
  "generate_id st d =
     (case load_all st of
        Inl err \<Rightarrow> Inl err
      | Inr (all_expenses, st') \<Rightarrow>
          (let date_prefix = date_prefix_of d;
               max_seq = max_seq_loop date_prefix 0 all_expenses;
               new_seq = max_seq + 1
           in Inr (date_prefix @ ''-'' @ fmt_04d new_seq, st')))"

definition add_expense ::
  "pyenv \<Rightarrow> f64 storage \<Rightarrow> string option \<Rightarrow> string \<Rightarrow> py_arg \<Rightarrow> string \<Rightarrow> string
     \<Rightarrow> error + (f64 expense \<times> f64 storage)" where
  "add_expense env st date_arg categ amount_arg note_arg currency_arg =
     (case format_date env date_arg of
        Inl err \<Rightarrow> Inl err
      | Inr formatted_date \<Rightarrow>
     (case format_amount env amount_arg of
        Inl err \<Rightarrow> Inl err
      | Inr formatted_amount \<Rightarrow>
     (case format_category categ of
        Inl err \<Rightarrow> Inl err
      | Inr formatted_category \<Rightarrow>
     (case generate_id st formatted_date of
        Inl err \<Rightarrow> Inl err
      | Inr (expense_id, st1) \<Rightarrow>
          (let expense = \<lparr> id' = expense_id,
                             date = formatted_date,
                             category = formatted_category,
                             amount = formatted_amount,
                             currency = currency_arg,
                             note' = py_strip note_arg,
                             created_at = now_stamp env \<rparr>
           in case add st1 expense of
                Inl err \<Rightarrow> Inl err
              | Inr st2 \<Rightarrow> Inr (expense, st2))))))"

definition apply_filters ::
  "'a::linorder expense list \<Rightarrow> string option \<Rightarrow> string option \<Rightarrow> string option
     \<Rightarrow> string option \<Rightarrow> 'a option \<Rightarrow> 'a option \<Rightarrow> 'a expense list" where
  "apply_filters expenses month from_date to_date categ min_amount max_amount =
     (let filtered = expenses;
          filtered = (case month of
                        None \<Rightarrow> filtered
                      | Some m \<Rightarrow> if m = [] then filtered
                                  else filter (\<lambda>e. startswith (date e) m) filtered);
          filtered = (case from_date of
                        None \<Rightarrow> filtered
                      | Some f \<Rightarrow> if f = [] then filtered
                                  else filter (\<lambda>e. date e \<ge> f) filtered);
          filtered = (case to_date of
                        None \<Rightarrow> filtered
                      | Some t \<Rightarrow> if t = [] then filtered
                                  else filter (\<lambda>e. date e \<le> t) filtered);
          filtered = (case categ of
                        None \<Rightarrow> filtered
                      | Some c \<Rightarrow> if c = [] then filtered
                                  else (let category_lower = py_lower c
                                        in filter (\<lambda>e. py_lower (category e) = category_lower)
                                             filtered));
          filtered = (case min_amount of
                        None \<Rightarrow> filtered
                      | Some lo \<Rightarrow> filter (\<lambda>e. amount e \<ge> lo) filtered);
          filtered = (case max_amount of
                        None \<Rightarrow> filtered
                      | Some hi \<Rightarrow> filter (\<lambda>e. amount e \<le> hi) filtered)
      in filtered)"

definition sort_expenses :: "'a::linorder expense list \<Rightarrow> string \<Rightarrow> bool \<Rightarrow> 'a expense list" where
  "sort_expenses expenses sort_by descending =
     (if sort_by = ''amount'' then py_sorted amount descending expenses
      else if sort_by = ''category'' then py_sorted category descending expenses
      else py_sorted date descending expenses)"

definition list_expenses ::
  "'a::linorder storage \<Rightarrow> string option \<Rightarrow> string option \<Rightarrow> string option \<Rightarrow> string option
     \<Rightarrow> 'a option \<Rightarrow> 'a option \<Rightarrow> string \<Rightarrow> bool \<Rightarrow> int option
     \<Rightarrow> error + ('a expense list \<times> 'a storage)" where
  "list_expenses st month from_date to_date categ min_amount max_amount sort_by descending limit =
     (case load_all st of
        Inl err \<Rightarrow> Inl err
      | Inr (expenses, st') \<Rightarrow>
          (let filtered = apply_filters expenses month from_date to_date categ
                            min_amount max_amount;
               sorted_expenses = sort_expenses filtered sort_by descending;
               sorted_expenses = (case limit of
                                    None \<Rightarrow> sorted_expenses
                                  | Some n \<Rightarrow> if n \<noteq> 0 \<and> n > 0
                                              then take (nat n) sorted_expenses
                                              else sorted_expenses)
           in Inr (sorted_expenses, st')))"

record 'a summary_result =
  count' :: nat
  grand_total :: 'a
  totals_by_category :: "(string \<times> 'a) list"
  currency' :: string
  period :: string

fun dict_set :: "'k \<Rightarrow> 'v \<Rightarrow> ('k \<times> 'v) list \<Rightarrow> ('k \<times> 'v) list" where
  \<comment> \<open>\<open>d[k] = v\<close> on a dictionary kept in insertion order\<close>
  "dict_set k v [] = [(k, v)]"
| "dict_set k v ((k', v') # r) = (if k' = k then (k, v) # r else (k', v') # dict_set k v r)"

definition category_step ::
  "(string \<times> 'a::{zero, plus}) list \<Rightarrow> 'a expense \<Rightarrow> (string \<times> 'a) list" where
  \<comment> \<open>one round of the loop over the expenses in \<open>summary\<close>\<close>
  "category_step category_totals e =
     (case map_of category_totals (category e) of
        None \<Rightarrow> dict_set (category e) (0 + amount e) (dict_set (category e) 0 category_totals)
      | Some v \<Rightarrow> dict_set (category e) (v + amount e) category_totals)"

definition get_period_description ::
  "string option \<Rightarrow> string option \<Rightarrow> string option \<Rightarrow> string" where
  "get_period_description month from_date to_date =
     (if truthy month then ''('' @ the month @ '')''
      else if truthy from_date \<and> truthy to_date
      then ''('' @ the from_date @ '' to '' @ the to_date @ '')''
      else if truthy from_date then ''(from '' @ the from_date @ '')''
      else if truthy to_date then ''(to '' @ the to_date @ '')''
      else ''(all time)'')"

definition summary ::
  "'a::{zero, plus, linorder} storage \<Rightarrow> string option \<Rightarrow> string option \<Rightarrow> string option
     \<Rightarrow> string option \<Rightarrow> error + ('a summary_result \<times> 'a storage)" where
  "summary st month from_date to_date categ =
     (case list_expenses st month from_date to_date categ None None ''date'' False None of
        Inl err \<Rightarrow> Inl err
      | Inr (expenses, st') \<Rightarrow>
          (case expenses of
             [] \<Rightarrow>
               Inr (\<lparr> count' = 0,
                      grand_total = 0,
                      totals_by_category = [],
                      currency' = ''BDT'',
                      period = get_period_description month from_date to_date \<rparr>, st')
           | first # _ \<Rightarrow>
               Inr (\<lparr> count' = length expenses,
                      grand_total = py_sum (map amount expenses),
                      totals_by_category = foldl category_step [] expenses,
                      currency' = currency first,
                      period = get_period_description month from_date to_date \<rparr>, st')))"

definition delete_expense :: "'a storage \<Rightarrow> string \<Rightarrow> error + (bool \<times> 'a storage)" where
  "delete_expense st expense_id = delete st expense_id"

definition edit_expense ::
  "pyenv \<Rightarrow> f64 storage \<Rightarrow> string \<Rightarrow> string option \<Rightarrow> string option \<Rightarrow> py_arg option
     \<Rightarrow> string option \<Rightarrow> string option \<Rightarrow> error + (f64 expense option \<times> f64 storage)" where
  "edit_expense env st expense_id date_arg categ amount_arg note_arg currency_arg =
     (case (case date_arg of
              None \<Rightarrow> Inr None
            | Some d \<Rightarrow> (case format_date env (Some d) of Inl err \<Rightarrow> Inl err | Inr v \<Rightarrow> Inr (Some v))) of
        Inl err \<Rightarrow> Inl err
      | Inr new_date \<Rightarrow>
     (case (case categ of
              None \<Rightarrow> Inr None
            | Some c \<Rightarrow> (case format_category c of Inl err \<Rightarrow> Inl err | Inr v \<Rightarrow> Inr (Some v))) of
        Inl err \<Rightarrow> Inl err
      | Inr new_category \<Rightarrow>
     (case (case amount_arg of
              None \<Rightarrow> Inr None
            | Some a \<Rightarrow> (case format_amount env a of Inl err \<Rightarrow> Inl err | Inr v \<Rightarrow> Inr (Some v))) of
        Inl err \<Rightarrow> Inl err
      | Inr new_amount \<Rightarrow>
          update st expense_id
            \<lparr> u_id = None,
              u_date = new_date,
              u_category = new_category,
              u_amount = new_amount,
              u_currency = currency_arg,
              u_note = map_option py_strip note_arg,
              u_created_at = None,
              u_extra = [] \<rparr>)))"

section \<open>Notions used in the statements\<close>

text \<open>The sequence numbers read off the ids that start with a prefix.\<close>

definition seqs_of :: "string \<Rightarrow> 'a expense list \<Rightarrow> int set" where
  "seqs_of p xs = {n. \<exists>e\<in>set xs. startswith (id' e) p \<and>
      py_int (last (py_split CHR ''-'' (id' e))) = Some n}"

text \<open>
  A record passes the filters of \<open>list_expenses\<close>: each of the four string filters counts
  only when it is given and not empty, each amount bound whenever it is given.
\<close>

definition matches ::
  "string option \<Rightarrow> string option \<Rightarrow> string option \<Rightarrow> string option
     \<Rightarrow> 'a::linorder option \<Rightarrow> 'a option \<Rightarrow> 'a expense \<Rightarrow> bool" where
  "matches month from_date to_date categ min_amount max_amount e =
     ((case month of None \<Rightarrow> True | Some m \<Rightarrow> m = [] \<or> startswith (date e) m) \<and>
      (case from_date of None \<Rightarrow> True | Some f \<Rightarrow> f = [] \<or> f \<le> date e) \<and>
      (case to_date of None \<Rightarrow> True | Some t \<Rightarrow> t = [] \<or> date e \<le> t) \<and>
      (case categ of None \<Rightarrow> True | Some c \<Rightarrow> c = [] \<or> py_lower (category e) = py_lower c) \<and>
      (case min_amount of None \<Rightarrow> True | Some lo \<Rightarrow> lo \<le> amount e) \<and>
      (case max_amount of None \<Rightarrow> True | Some hi \<Rightarrow> amount e \<le> hi))"

text \<open>
  A list is sorted by a key, upwards or downwards, and its records of equal key stand in
  the order they have in another list.
\<close>

definition in_order :: "('b \<Rightarrow> 'k::linorder) \<Rightarrow> bool \<Rightarrow> 'b list \<Rightarrow> bool" where
  "in_order key descending r =
     (if descending then sorted (rev (map key r)) else sorted (map key r))"

definition ties_as_in :: "('b \<Rightarrow> 'k) \<Rightarrow> 'b list \<Rightarrow> 'b list \<Rightarrow> bool" where
  "ties_as_in key r ys = (\<forall>k. filter (\<lambda>e. key e = k) r = filter (\<lambda>e. key e = k) ys)"

text \<open>
  The dictionary \<open>edit_expense\<close> hands to \<open>update\<close>: the formatted value of every field
  that was given, and neither \<open>id\<close> nor \<open>created_at\<close>.
\<close>

definition edit_updates ::
  "pyenv \<Rightarrow> string option \<Rightarrow> string option \<Rightarrow> py_arg option \<Rightarrow> string option \<Rightarrow> string option
     \<Rightarrow> f64 updates \<Rightarrow> bool" where
  "edit_updates env da c a nt cu u =
     ((case da of None \<Rightarrow> u_date u = None
               | Some d \<Rightarrow> \<exists>v. format_date env (Some d) = Inr v \<and> u_date u = Some v) \<and>
      (case c of None \<Rightarrow> u_category u = None
               | Some x \<Rightarrow> \<exists>v. format_category x = Inr v \<and> u_category u = Some v) \<and>
      (case a of None \<Rightarrow> u_amount u = None
               | Some x \<Rightarrow> \<exists>v. format_amount env x = Inr v \<and> u_amount u = Some v) \<and>
      u_note u = map_option py_strip nt \<and> u_currency u = cu \<and>
      u_id u = None \<and> u_created_at u = None \<and> u_extra u = [])"

text \<open>
  Concrete inputs for the examples: the clock stands at 2024-01-15, the date parser accepts
  that day, the file is writable and holds the given records, written once per record
  after its creation. The second kind of store keeps its amounts as exact fractions.
\<close>

definition demo_env :: pyenv where
  "demo_env = \<lparr> today = ''2024-01-15'', now_stamp = ''2024-01-15 10:00:00'',
            strptime_ymd = (\<lambda>s. s = ''2024-01-15''), float_of_str = (\<lambda>s. None) \<rparr>"

definition demo_store :: "f64 expense list \<Rightarrow> f64 storage" where
  "demo_store xs = \<lparr> filepath = ''data/expenses.json'', contents = Document xs,
                     write_failure = None, writes = length xs + 1 \<rparr>"

definition demo_expense :: "string \<Rightarrow> string \<Rightarrow> rat \<Rightarrow> f64 expense" where
  "demo_expense i c a = \<lparr> id' = i, date = ''2024-01-15'', category = c, amount = F64 a,
       currency = ''BDT'', note' = '''', created_at = ''2024-01-15 10:00:00'' \<rparr>"

definition on_date :: "string \<Rightarrow> f64 expense \<Rightarrow> f64 expense" where
  "on_date d e = e\<lparr> date := d \<rparr>"

definition in_currency :: "string \<Rightarrow> f64 expense \<Rightarrow> f64 expense" where
  "in_currency cur e = e\<lparr> currency := cur \<rparr>"

definition demo_note_update :: "f64 updates" where
  "demo_note_update = \<lparr> u_id = None, u_date = None, u_category = None, u_amount = None,
       u_currency = None, u_note = Some ''lunch'', u_created_at = None, u_extra = [] \<rparr>"



section \<open>Reading and writing integers\<close>

lemma is_digit_digit_char: "n < 10 \<Longrightarrow> is_digit (digit_char n)"
  by (simp add: is_digit_def digit_char_def)

lemma digit_val_digit_char: "n < 10 \<Longrightarrow> digit_val (digit_char n) = int n"
  by (simp add: digit_val_def digit_char_def)

lemma dec_str_digits: "\<forall>c\<in>set (dec_str n). is_digit c"
proof (induction n rule: dec_str.induct)
  case (1 n)
  show ?case
  proof (cases "n < 10")
    case True
    then show ?thesis by (subst dec_str.simps) (simp add: is_digit_digit_char)
  next
    case False
    with 1 show ?thesis by (subst dec_str.simps) (simp add: is_digit_digit_char)
  qed
qed

lemma dec_str_nonempty: "dec_str n \<noteq> []"
  by (subst dec_str.simps) simp

lemma dec_value_append: "dec_value (s @ [c]) = 10 * dec_value s + digit_val c"
  by (simp add: dec_value_def)

lemma dec_value_dec_str: "dec_value (dec_str n) = int n"
proof (induction n rule: dec_str.induct)
  case (1 n)
  show ?case
  proof (cases "n < 10")
    case True
    then show ?thesis
      by (subst dec_str.simps) (simp add: dec_value_def digit_val_digit_char)
  next
    case False
    with 1 have "dec_value (dec_str (n div 10)) = int (n div 10)" by simp
    moreover have "10 * int (n div 10) + int (n mod 10) = int n"
      by presburger
    ultimately show ?thesis using False
      by (subst dec_str.simps) (simp add: dec_value_append digit_val_digit_char)
  qed
qed

lemma dec_value_zeros: "dec_value (replicate k CHR ''0'' @ s) = dec_value s"
proof -
  have "foldl (\<lambda>a c. 10 * a + digit_val c) 0 (replicate k CHR ''0'') = 0"
    by (induction k) (simp_all add: digit_val_def)
  then show ?thesis by (simp add: dec_value_def)
qed

lemma digits_ok_all_digits: "s \<noteq> [] \<Longrightarrow> \<forall>c\<in>set s. is_digit c \<Longrightarrow> digits_ok s"
proof (induction s rule: digits_ok.induct)
  case (3 c d r)
  then have "d \<noteq> CHR ''_''" by (auto simp: is_digit_def)
  with 3 show ?case by simp
qed simp_all

lemma digit_not_space: "is_digit c \<Longrightarrow> \<not> is_space c"
  by (auto simp: is_digit_def is_space_def Let_def)

lemma py_strip_digits:
  assumes "\<forall>c\<in>set s. is_digit c"
  shows "py_strip s = s"
proof -
  have a: "dropWhile is_space t = t" if "\<forall>c\<in>set t. is_digit c" for t
    using that by (cases t) (auto simp: digit_not_space)
  show ?thesis using assms by (simp add: py_strip_def a)
qed

lemma py_int_digits:
  assumes "s \<noteq> []" "\<forall>c\<in>set s. is_digit c"
  shows "py_int s = Some (dec_value s)"
proof -
  obtain c r where s: "s = c # r" using assms(1) by (cases s) auto
  have c: "c \<noteq> CHR ''+''" "c \<noteq> CHR ''-''"
    using assms(2) s by (auto simp: is_digit_def)
  have f: "filter (\<lambda>c. c \<noteq> CHR ''_'') s = s"
    using assms(2) by (auto simp: filter_id_conv is_digit_def)
  have d: "digits_ok s" using assms by (rule digits_ok_all_digits)
  have p: "py_strip s = s" by (rule py_strip_digits[OF assms(2)])
  show ?thesis
    unfolding py_int_def p Let_def using c f d unfolding s by simp
qed

lemma zero_pad_digits: "\<forall>c\<in>set s. is_digit c \<Longrightarrow> \<forall>c\<in>set (zero_pad w s). is_digit c"
  by (auto simp: zero_pad_def is_digit_def)

lemma fmt_04d_digits: "0 \<le> n \<Longrightarrow> \<forall>c\<in>set (fmt_04d n). is_digit c"
  using zero_pad_digits[OF dec_str_digits] by (simp add: fmt_04d_def)

lemma fmt_04d_nonempty: "fmt_04d n \<noteq> []"
  by (simp add: fmt_04d_def zero_pad_def dec_str_nonempty)

lemma py_int_fmt_04d: "0 \<le> n \<Longrightarrow> py_int (fmt_04d n) = Some n"
proof -
  assume n: "0 \<le> n"
  have "py_int (fmt_04d n) = Some (dec_value (fmt_04d n))"
    by (rule py_int_digits[OF fmt_04d_nonempty fmt_04d_digits[OF n]])
  also have "dec_value (fmt_04d n) = n"
    using n by (simp add: fmt_04d_def zero_pad_def dec_value_zeros dec_value_dec_str)
  finally show ?thesis .
qed

lemma py_split_nonempty: "py_split sep s \<noteq> []"
  by (induction s) (auto split: list.splits)

lemma length_py_split: "length (py_split sep s) = Suc (length (filter (\<lambda>c. c = sep) s))"
  by (induction s) (auto split: list.splits)

lemma last_py_split: "last (py_split sep s) = rev (takeWhile (\<lambda>c. c \<noteq> sep) (rev s))"
proof (induction s)
  case Nil
  then show ?case by simp
next
  case (Cons c cs)
  show ?case
  proof (cases "c = sep")
    case True
    then show ?thesis
      using Cons py_split_nonempty[of sep cs]
      by (auto simp: takeWhile_append)
  next
    case False
    obtain w ws where p: "py_split sep cs = w # ws"
      using py_split_nonempty[of sep cs] by (cases "py_split sep cs") auto
    show ?thesis
    proof (cases ws)
      case Nil
      with p have "filter (\<lambda>c. c = sep) cs = []"
        using length_py_split[of sep cs] by simp
      then have all: "\<forall>x\<in>set cs. x \<noteq> sep"
        by (simp add: filter_empty_conv)
      then have tw1: "takeWhile (\<lambda>c. c \<noteq> sep) (rev cs @ [c]) = rev cs @ [c]"
        using False by (simp add: takeWhile_append2)
      have tw: "takeWhile (\<lambda>c. c \<noteq> sep) (rev cs) = rev cs"
        by (rule takeWhile_eq_all_conv[THEN iffD2]) (use all in auto)
      have "w = last (py_split sep cs)"
        using p Nil by simp
      then have "w = cs"
        unfolding Cons.IH tw by simp
      then show ?thesis using p Nil False by (simp add: tw1)
    next
      case (Cons a list)
      with p have "filter (\<lambda>c. c = sep) cs \<noteq> []"
        using length_py_split[of sep cs] by auto
      then obtain x where x: "x \<in> set cs" "x = sep"
        by (auto simp: filter_empty_conv)
      then have "takeWhile (\<lambda>c. c \<noteq> sep) (rev cs @ [c]) = takeWhile (\<lambda>c. c \<noteq> sep) (rev cs)"
        by (intro takeWhile_append1[of x]) auto
      then show ?thesis using Cons.IH p Cons False by simp
    qed
  qed
qed

lemma last_py_split_append:
  assumes "sep \<notin> set t"
  shows "last (py_split sep (a @ sep # t)) = t"
proof -
  have "takeWhile (\<lambda>c. c \<noteq> sep) (rev t @ sep # rev a) = rev t @ takeWhile (\<lambda>c. c \<noteq> sep) (sep # rev a)"
    using assms by (intro takeWhile_append2) auto
  then have "takeWhile (\<lambda>c. c \<noteq> sep) (rev t @ sep # rev a) = rev t"
    by simp
  then show ?thesis by (simp add: last_py_split)
qed

section \<open>Storage and sequence numbers\<close>

lemma load_all_Document: "contents st = Document xs \<Longrightarrow> load_all st = Inr (xs, st)"
  by (simp add: load_all_def)

lemma load_all_result:
  assumes "load_all st = Inr (xs, st')"
  shows "contents st' = Document xs" "filepath st' = filepath st"
    "write_failure st' = write_failure st"
proof -
  show "contents st' = Document xs"
  proof (cases "contents st")
    case Missing
    with assms show ?thesis
      by (cases "write_failure st") (auto simp: load_all_def ensure_file_exists_def)
  qed (use assms in \<open>simp_all add: load_all_def\<close>)
  show "filepath st' = filepath st"
  proof (cases "contents st")
    case Missing
    with assms show ?thesis
      by (cases "write_failure st") (auto simp: load_all_def ensure_file_exists_def)
  qed (use assms in \<open>auto simp: load_all_def\<close>)
  show "write_failure st' = write_failure st"
  proof (cases "contents st")
    case Missing
    with assms show ?thesis
      by (cases "write_failure st") (auto simp: load_all_def ensure_file_exists_def)
  qed (use assms in \<open>auto simp: load_all_def\<close>)
qed

lemma load_all_again: "load_all st = Inr (xs, st') \<Longrightarrow> load_all st' = Inr (xs, st')"
  by (rule load_all_Document) (rule load_all_result(1))

lemma save_all_result:
  assumes "save_all st xs = Inr st'"
  shows "contents st' = Document xs" "filepath st' = filepath st"
    "write_failure st' = None" "write_failure st = None" "writes st' = Suc (writes st)"
  using assms by (cases "write_failure st"; auto simp: save_all_def)+

lemma add_result:
  assumes "load_all st = Inr (xs, st')" "add st e = Inr st2"
  shows "contents st2 = Document (xs @ [e])"
proof -
  from assms have "save_all st' (xs @ [e]) = Inr st2"
    by (simp add: add_def)
  then show ?thesis by (rule save_all_result(1))
qed

lemma seqs_of_Nil: "seqs_of p [] = {}"
  by (simp add: seqs_of_def)

lemma seqs_of_Cons:
  "seqs_of p (e # es) =
     (if startswith (id' e) p
      then (case py_int (last (py_split CHR ''-'' (id' e))) of
              Some n \<Rightarrow> insert n (seqs_of p es) | None \<Rightarrow> seqs_of p es)
      else seqs_of p es)"
  by (auto simp: seqs_of_def split: option.splits)

lemma seqs_of_append: "seqs_of p (xs @ ys) = seqs_of p xs \<union> seqs_of p ys"
  by (auto simp: seqs_of_def)

lemma finite_seqs_of: "finite (seqs_of p xs)"
  by (induction xs) (auto simp: seqs_of_Nil seqs_of_Cons split: option.splits)

lemma max_seq_loop_Max: "max_seq_loop p m xs = Max (insert m (seqs_of p xs))"
proof (induction xs arbitrary: m)
  case Nil
  then show ?case by (simp add: seqs_of_Nil)
next
  case (Cons e es)
  have fin: "finite (seqs_of p es)" by (rule finite_seqs_of)
  show ?case
  proof (cases "startswith (id' e) p")
    case False
    then show ?thesis using Cons by (simp add: seqs_of_Cons)
  next
    case True
    show ?thesis
    proof (cases "py_int (last (py_split CHR ''-'' (id' e)))")
      case None
      then show ?thesis using True Cons by (simp add: seqs_of_Cons)
    next
      case (Some n)
      have step: "max_seq_loop p m (e # es) = max_seq_loop p (max m n) es"
        using True Some by simp
      have sq: "seqs_of p (e # es) = insert n (seqs_of p es)"
        using True Some by (simp add: seqs_of_Cons)
      have "Max (insert (max m n) (seqs_of p es)) = Max (insert m (insert n (seqs_of p es)))"
      proof (cases "seqs_of p es = {}")
        case True
        then show ?thesis by simp
      next
        case False
        then have "Max (insert (max m n) (seqs_of p es)) = max (max m n) (Max (seqs_of p es))"
          and "Max (insert m (insert n (seqs_of p es))) = max m (max n (Max (seqs_of p es)))"
          using fin by simp_all
        then show ?thesis by (simp only: max.assoc)
      qed
      then show ?thesis
        unfolding step sq Cons.IH .
    qed
  qed
qed

lemma max_seq_loop_nonneg: "0 \<le> m \<Longrightarrow> 0 \<le> max_seq_loop p m xs"
  by (auto simp: max_seq_loop_Max finite_seqs_of Max_ge_iff)

lemma startswith_append: "startswith (p @ s) p"
  by (simp add: startswith_def)

lemma dash_not_digit: "\<forall>c\<in>set s. is_digit c \<Longrightarrow> CHR ''-'' \<notin> set s"
  by (auto simp: is_digit_def)

lemma seqs_of_generated:
  assumes "0 \<le> k" "id' e = p @ ''-'' @ fmt_04d k"
  shows "seqs_of p [e] = {k}"
proof -
  have "last (py_split CHR ''-'' (p @ CHR ''-'' # fmt_04d k)) = fmt_04d k"
    by (rule last_py_split_append) (rule dash_not_digit[OF fmt_04d_digits[OF assms(1)]])
  then have "py_int (last (py_split CHR ''-'' (id' e))) = Some k"
    using assms by (simp add: py_int_fmt_04d)
  moreover have "startswith (id' e) p"
    unfolding assms(2) by (rule startswith_append)
  ultimately show ?thesis
    by (simp add: seqs_of_Cons seqs_of_Nil)
qed

section \<open>Generated ids\<close>

lemma generate_id_loaded:
  assumes "load_all st = Inr (xs, st')"
  shows "generate_id st d =
           Inr (date_prefix_of d @ ''-'' @ fmt_04d (Max (insert 0 (seqs_of (date_prefix_of d) xs)) + 1), st')"
  using assms by (simp add: generate_id_def max_seq_loop_Max Let_def)

lemma add_expense_Inr:
  assumes ok: "add_expense env st da c a nt cu = Inr (e, st2)"
    and load: "load_all st = Inr (xs, st')"
  shows "id' e = date_prefix_of (date e) @ ''-'' @
                   fmt_04d (Max (insert 0 (seqs_of (date_prefix_of (date e)) xs)) + 1)"
    and "contents st2 = Document (xs @ [e])"
proof -
  from ok obtain fd fa fc where
    e: "e = \<lparr> id' = date_prefix_of fd @ ''-'' @ fmt_04d (Max (insert 0 (seqs_of (date_prefix_of fd) xs)) + 1),
              date = fd, category = fc, amount = fa, currency = cu,
              note' = py_strip nt, created_at = now_stamp env \<rparr>"
    and a: "add st' e = Inr st2"
    by (auto simp: add_expense_def generate_id_loaded[OF load] Let_def split: sum.splits)
  show "id' e = date_prefix_of (date e) @ ''-'' @
                   fmt_04d (Max (insert 0 (seqs_of (date_prefix_of (date e)) xs)) + 1)"
    by (simp add: e)
  show "contents st2 = Document (xs @ [e])"
    using add_result[OF load_all_again[OF load] a] .
qed

lemma Max_seqs_nonneg: "0 \<le> Max (insert 0 (seqs_of p xs))"
  by (simp add: finite_seqs_of)

lemma Max_seqs_snoc:
  assumes "id' e = p @ ''-'' @ fmt_04d (Max (insert 0 (seqs_of p xs)) + 1)"
  shows "Max (insert 0 (seqs_of p (xs @ [e]))) = Max (insert 0 (seqs_of p xs)) + 1"
proof -
  let ?k = "Max (insert 0 (seqs_of p xs)) + 1"
  have k: "0 \<le> ?k" using Max_seqs_nonneg[of p xs] by simp
  have "seqs_of p [e] = {?k}"
    using k assms by (rule seqs_of_generated)
  then have "insert 0 (seqs_of p (xs @ [e])) = insert ?k (insert 0 (seqs_of p xs))"
    by (auto simp: seqs_of_append)
  moreover have "Max (insert ?k (insert 0 (seqs_of p xs))) = max ?k (Max (insert 0 (seqs_of p xs)))"
    by (rule Max_insert) (simp_all add: finite_seqs_of)
  ultimately show ?thesis by simp
qed

lemma seqs_of_none: "\<forall>e\<in>set xs. \<not> startswith (id' e) p \<Longrightarrow> seqs_of p xs = {}"
  by (auto simp: seqs_of_def)

text \<open>
  Claim C1. \<open>generate_id\<close> scans the whole loaded collection for the ids that start with
  \<open>EXP-\<close> followed by the date without its dashes, reads the part after the last dash as
  an integer (ids where that fails are skipped), and returns the prefix with the maximum
  plus one, padded to four digits. Hence two \<open>add_expense\<close> calls in a row on the same
  date get consecutive sequence numbers, and the first id on a date no stored id is
  prefixed with ends in \<open>0001\<close>.
\<close>

theorem generate_id_next_sequence:
  assumes load: "load_all st = Inr (xs, st')"
  shows "generate_id st d =
           Inr (date_prefix_of d @ ''-'' @
                fmt_04d (Max (insert 0 {n. \<exists>e\<in>set xs. startswith (id' e) (date_prefix_of d) \<and>
                   py_int (rev (takeWhile (\<lambda>c. c \<noteq> CHR ''-'') (rev (id' e)))) = Some n}) + 1), st')
         \<and> (\<forall>e1 st1 e2 st2.
               add_expense env st da c a nt cu = Inr (e1, st1) \<longrightarrow>
               add_expense env2 st1 da2 c2 a2 nt2 cu2 = Inr (e2, st2) \<longrightarrow>
               date e2 = date e1 \<longrightarrow>
               (\<exists>k\<ge>1. id' e1 = date_prefix_of (date e1) @ ''-'' @ fmt_04d k \<and>
                      id' e2 = date_prefix_of (date e1) @ ''-'' @ fmt_04d (k + 1)))
         \<and> (\<forall>e1 st1.
               add_expense env st da c a nt cu = Inr (e1, st1) \<longrightarrow>
               (\<forall>e\<in>set xs. \<not> startswith (id' e) (date_prefix_of (date e1))) \<longrightarrow>
               id' e1 = date_prefix_of (date e1) @ ''-0001'')"
proof (intro conjI allI impI)
  show "generate_id st d =
           Inr (date_prefix_of d @ ''-'' @
                fmt_04d (Max (insert 0 {n. \<exists>e\<in>set xs. startswith (id' e) (date_prefix_of d) \<and>
                   py_int (rev (takeWhile (\<lambda>c. c \<noteq> CHR ''-'') (rev (id' e)))) = Some n}) + 1), st')"
    using generate_id_loaded[OF load, of d] by (simp add: seqs_of_def last_py_split)
next
  fix e1 st1 e2 st2
  assume a1: "add_expense env st da c a nt cu = Inr (e1, st1)"
    and a2: "add_expense env2 st1 da2 c2 a2 nt2 cu2 = Inr (e2, st2)"
    and d: "date e2 = date e1"
  let ?p = "date_prefix_of (date e1)"
  let ?k = "Max (insert 0 (seqs_of ?p xs)) + 1"
  have id1: "id' e1 = ?p @ ''-'' @ fmt_04d ?k"
    and c1: "contents st1 = Document (xs @ [e1])"
    using add_expense_Inr[OF a1 load] by simp_all
  have "id' e2 = ?p @ ''-'' @ fmt_04d (Max (insert 0 (seqs_of ?p (xs @ [e1]))) + 1)"
    using add_expense_Inr(1)[OF a2 load_all_Document[OF c1]] d by simp
  then have id2: "id' e2 = ?p @ ''-'' @ fmt_04d (?k + 1)"
    by (simp only: Max_seqs_snoc[OF id1])
  have "1 \<le> ?k" using Max_seqs_nonneg[of ?p xs] by simp
  with id1 id2 show "\<exists>k\<ge>1. id' e1 = ?p @ ''-'' @ fmt_04d k \<and> id' e2 = ?p @ ''-'' @ fmt_04d (k + 1)"
    by blast
next
  fix e1 st1
  assume a1: "add_expense env st da c a nt cu = Inr (e1, st1)"
    and none: "\<forall>e\<in>set xs. \<not> startswith (id' e) (date_prefix_of (date e1))"
  have "fmt_04d 1 = ''0001''"
    by code_simp
  then show "id' e1 = date_prefix_of (date e1) @ ''-0001''"
    using add_expense_Inr(1)[OF a1 load] by (simp add: seqs_of_none[OF none])
qed

theorem generate_id_next_sequence_witness:
  "load_all (demo_store []) = Inr ([], demo_store [])
   \<and> generate_id (demo_store []) ''2024-01-15'' = Inr (''EXP-20240115-0001'', demo_store [])
   \<and> add_expense demo_env (demo_store []) (Some ''2024-01-15'') ''food'' (Float (F64 10)) '''' ''BDT''
       = Inr (demo_expense ''EXP-20240115-0001'' ''food'' 10,
              demo_store [demo_expense ''EXP-20240115-0001'' ''food'' 10])
   \<and> add_expense demo_env (demo_store [demo_expense ''EXP-20240115-0001'' ''food'' 10])
         (Some ''2024-01-15'') ''food'' (Float (F64 20)) '''' ''BDT''
       = Inr (demo_expense ''EXP-20240115-0002'' ''food'' 20,
              demo_store [demo_expense ''EXP-20240115-0001'' ''food'' 10,
                          demo_expense ''EXP-20240115-0002'' ''food'' 20])
   \<and> (\<exists>k\<ge>1. ''EXP-20240115-0001'' = ''EXP-20240115-'' @ fmt_04d k
            \<and> ''EXP-20240115-0002'' = ''EXP-20240115-'' @ fmt_04d (k + 1))"
proof -
  let ?e1 = "demo_expense ''EXP-20240115-0001'' ''food'' 10"
  let ?e2 = "demo_expense ''EXP-20240115-0002'' ''food'' 20"
  have l: "load_all (demo_store []) = Inr ([], demo_store [])"
    by (simp add: load_all_def demo_store_def)
  have a1: "add_expense demo_env (demo_store []) (Some ''2024-01-15'') ''food'' (Float (F64 10)) '''' ''BDT''
       = Inr (?e1, demo_store [?e1])"
    by code_simp
  have a2: "add_expense demo_env (demo_store [?e1]) (Some ''2024-01-15'') ''food'' (Float (F64 20)) '''' ''BDT''
       = Inr (?e2, demo_store [?e1, ?e2])"
    by code_simp
  have d: "date ?e2 = date ?e1" "date ?e1 = ''2024-01-15''" "id' ?e1 = ''EXP-20240115-0001''"
    "id' ?e2 = ''EXP-20240115-0002''"
    by (simp_all add: demo_expense_def)
  have p: "date_prefix_of ''2024-01-15'' = ''EXP-20240115''"
    by (simp add: date_prefix_of_def remove_dashes_def)
  have f: "fmt_04d 1 = ''0001''"
    by code_simp
  note T = generate_id_next_sequence[OF l, of "''2024-01-15''" demo_env "Some ''2024-01-15''"
      "''food''" "Float (F64 10)" "''''" "''BDT''" demo_env "Some ''2024-01-15''"
      "''food''" "Float (F64 20)" "''''" "''BDT''"]
  from T have g: "generate_id (demo_store []) ''2024-01-15'' = Inr (''EXP-20240115-0001'', demo_store [])"
    by (simp add: p f)
  from T a1 a2 d have "\<exists>k\<ge>1. id' ?e1 = date_prefix_of (date ?e1) @ ''-'' @ fmt_04d k \<and>
                      id' ?e2 = date_prefix_of (date ?e1) @ ''-'' @ fmt_04d (k + 1)"
    by blast
  then have k: "\<exists>k\<ge>1. ''EXP-20240115-0001'' = ''EXP-20240115-'' @ fmt_04d k
            \<and> ''EXP-20240115-0002'' = ''EXP-20240115-'' @ fmt_04d (k + 1)"
    by (simp add: d p)
  from l g a1 a2 k show ?thesis by blast
qed

section \<open>Deleting, updating and loading\<close>

lemma delete_Document:
  assumes "contents st = Document xs"
  shows "delete st i =
     (if \<exists>e\<in>set xs. id' e = i
      then (case write_failure st of
              Some msg \<Rightarrow> Inl (ValueError (''Error: Could not write to data file - '' @ msg))
            | None \<Rightarrow> Inr (True, st\<lparr> contents := Document (filter (\<lambda>e. id' e \<noteq> i) xs),
                                    writes := Suc (writes st) \<rparr>))
      else Inr (False, st))"
proof -
  have len: "length (filter (\<lambda>e. id' e \<noteq> i) xs) < length xs \<longleftrightarrow> (\<exists>e\<in>set xs. id' e = i)"
    by (metis (mono_tags, lifting) filter_id_conv length_filter_le length_filter_less nat_less_le)
  show ?thesis
    using len by (simp add: delete_def load_all_Document[OF assms] save_all_def split: option.splits)
qed

text \<open>
  Claim C5. On a stored collection, \<open>delete\<close> answers \<open>True\<close> exactly when a record with the id
  was present, and then the stored collection is the old one without the records of that
  id. When no record has the id, the answer is \<open>False\<close>, returned as a value, and nothing is
  saved: the storage is as it was, its count of writes included.
\<close>

theorem delete_returns_whether_removed:
  assumes "contents st = Document xs"
  shows "(\<forall>b st'. delete st i = Inr (b, st') \<longrightarrow>
            (b \<longleftrightarrow> (\<exists>e\<in>set xs. id' e = i)) \<and>
            contents st' = Document (filter (\<lambda>e. id' e \<noteq> i) xs))
         \<and> ((\<forall>e\<in>set xs. id' e \<noteq> i) \<longrightarrow> delete st i = Inr (False, st))
         \<and> ((\<exists>e\<in>set xs. id' e = i) \<longrightarrow> write_failure st = None \<longrightarrow>
              delete st i = Inr (True, st\<lparr> contents := Document (filter (\<lambda>e. id' e \<noteq> i) xs),
                                           writes := Suc (writes st) \<rparr>))"
proof (intro conjI allI impI)
  fix b st'
  assume d: "delete st i = Inr (b, st')"
  show "b \<longleftrightarrow> (\<exists>e\<in>set xs. id' e = i)"
    using d unfolding delete_Document[OF assms] by (auto split: if_splits option.splits)
  show "contents st' = Document (filter (\<lambda>e. id' e \<noteq> i) xs)"
  proof (cases "\<exists>e\<in>set xs. id' e = i")
    case True
    with d show ?thesis
      unfolding delete_Document[OF assms] by (auto split: option.splits)
  next
    case False
    then have "filter (\<lambda>e. id' e \<noteq> i) xs = xs"
      by (simp add: filter_id_conv)
    with False d assms show ?thesis
      unfolding delete_Document[OF assms] by auto
  qed
next
  assume "\<forall>e\<in>set xs. id' e \<noteq> i"
  then show "delete st i = Inr (False, st)"
    unfolding delete_Document[OF assms] by simp
next
  assume "\<exists>e\<in>set xs. id' e = i" "write_failure st = None"
  then show "delete st i = Inr (True, st\<lparr> contents := Document (filter (\<lambda>e. id' e \<noteq> i) xs),
                                           writes := Suc (writes st) \<rparr>)"
    unfolding delete_Document[OF assms] by simp
qed

theorem delete_returns_whether_removed_witness:
  "contents (demo_store [demo_expense ''EXP-20240115-0001'' ''food'' 10,
                         demo_expense ''EXP-20240115-0002'' ''rent'' 20]) =
     Document [demo_expense ''EXP-20240115-0001'' ''food'' 10,
               demo_expense ''EXP-20240115-0002'' ''rent'' 20]
   \<and> delete (demo_store [demo_expense ''EXP-20240115-0001'' ''food'' 10,
                         demo_expense ''EXP-20240115-0002'' ''rent'' 20]) ''EXP-20240115-0009''
      = Inr (False, demo_store [demo_expense ''EXP-20240115-0001'' ''food'' 10,
                                demo_expense ''EXP-20240115-0002'' ''rent'' 20])
   \<and> delete (demo_store [demo_expense ''EXP-20240115-0001'' ''food'' 10,
                         demo_expense ''EXP-20240115-0002'' ''rent'' 20]) ''EXP-20240115-0001''
      = Inr (True, \<lparr> filepath = ''data/expenses.json'',
                     contents = Document [demo_expense ''EXP-20240115-0002'' ''rent'' 20],
                     write_failure = None, writes = 4 \<rparr>)"
proof -
  let ?xs = "[demo_expense ''EXP-20240115-0001'' ''food'' 10,
              demo_expense ''EXP-20240115-0002'' ''rent'' 20]"
  have c: "contents (demo_store ?xs) = Document ?xs"
    by (simp add: demo_store_def)
  have absent: "\<forall>e\<in>set ?xs. id' e \<noteq> ''EXP-20240115-0009''"
    by (simp add: demo_expense_def)
  have present: "\<exists>e\<in>set ?xs. id' e = ''EXP-20240115-0001''"
    by (simp add: demo_expense_def)
  have w: "write_failure (demo_store ?xs) = None"
    by (simp add: demo_store_def)
  note T = delete_returns_whether_removed[OF c]
  from T[of "''EXP-20240115-0009''"] absent
  have 1: "delete (demo_store ?xs) ''EXP-20240115-0009'' = Inr (False, demo_store ?xs)"
    by blast
  from T[of "''EXP-20240115-0001''"] present w
  have "delete (demo_store ?xs) ''EXP-20240115-0001'' =
          Inr (True, demo_store ?xs\<lparr> contents := Document (filter (\<lambda>e. id' e \<noteq> ''EXP-20240115-0001'') ?xs),
                                           writes := Suc (writes (demo_store ?xs)) \<rparr>)"
    by blast
  then have 2: "delete (demo_store ?xs) ''EXP-20240115-0001''
      = Inr (True, \<lparr> filepath = ''data/expenses.json'',
                     contents = Document [demo_expense ''EXP-20240115-0002'' ''rent'' 20],
                     write_failure = None, writes = 4 \<rparr>)"
    by (simp add: demo_store_def demo_expense_def)
  from c 1 2 show ?thesis by blast
qed

lemma first_index_None: "first_index i xs n = None \<longleftrightarrow> (\<forall>e\<in>set xs. id' e \<noteq> i)"
  by (induction xs arbitrary: n) auto

lemma first_index_Some:
  "first_index i xs n = Some m \<Longrightarrow>
     \<exists>k<length xs. m = n + k \<and> id' (xs ! k) = i \<and> (\<forall>j<k. id' (xs ! j) \<noteq> i)"
proof (induction xs arbitrary: n)
  case Nil
  then show ?case by simp
next
  case (Cons e es)
  show ?case
  proof (cases "id' e = i")
    case True
    with Cons.prems show ?thesis by auto
  next
    case False
    with Cons.prems have "first_index i es (Suc n) = Some m" by simp
    from Cons.IH[OF this] obtain k where
      k: "k < length es" "m = Suc n + k" "id' (es ! k) = i" "\<forall>j<k. id' (es ! j) \<noteq> i"
      by blast
    have "\<forall>j<Suc k. id' ((e # es) ! j) \<noteq> i"
      using False k(4) by (auto simp: less_Suc_eq_0_disj)
    with k show ?thesis
      by (intro exI[of _ "Suc k"]) simp
  qed
qed

lemma update_Document:
  assumes "contents st = Document xs"
  shows "update st i u =
     (case first_index i xs 0 of
        None \<Rightarrow> Inr (None, st)
      | Some k \<Rightarrow>
          (case merged u (xs ! k) of
             Inl err \<Rightarrow> Inl err
           | Inr e' \<Rightarrow>
               (case write_failure st of
                  Some msg \<Rightarrow> Inl (ValueError (''Error: Could not write to data file - '' @ msg))
                | None \<Rightarrow> Inr (Some e', st\<lparr> contents := Document (xs[k := e']),
                                            writes := Suc (writes st) \<rparr>))))"
  by (simp add: update_def load_all_Document[OF assms] save_all_def
      split: option.splits sum.splits)

text \<open>
  Claim C10. \<open>delete\<close> drops every record whose id is the given one: after a \<open>delete\<close> that
  answered \<open>True\<close>, the stored collection is the old one without those records, so none of
  them is left. \<open>update\<close> replaces the record at the first position with the id and leaves
  every other position as it was.
\<close>

theorem delete_removes_every_match:
  assumes "contents st = Document xs"
  shows "(\<forall>st'. delete st i = Inr (True, st') \<longrightarrow>
            contents st' = Document (filter (\<lambda>e. id' e \<noteq> i) xs) \<and>
            (\<forall>ys. contents st' = Document ys \<longrightarrow> (\<forall>e\<in>set ys. id' e \<noteq> i)))
         \<and> (\<forall>e' st'. update st i u = Inr (Some e', st') \<longrightarrow>
              (\<exists>k<length xs. id' (xs ! k) = i \<and> (\<forall>j<k. id' (xs ! j) \<noteq> i) \<and>
                 contents st' = Document (xs[k := e'])))"
proof (intro conjI allI impI)
  fix st'
  assume d: "delete st i = Inr (True, st')"
  then show c: "contents st' = Document (filter (\<lambda>e. id' e \<noteq> i) xs)"
    unfolding delete_Document[OF assms] by (auto split: if_splits option.splits)
  fix ys
  assume "contents st' = Document ys"
  with c have "ys = filter (\<lambda>e. id' e \<noteq> i) xs" by simp
  then show "\<forall>e\<in>set ys. id' e \<noteq> i" by simp
next
  fix e' st'
  assume "update st i u = Inr (Some e', st')"
  then obtain m where m: "first_index i xs 0 = Some m"
    and c: "contents st' = Document (xs[m := e'])"
    unfolding update_Document[OF assms] by (auto split: option.splits sum.splits)
  from first_index_Some[OF m] c
  show "\<exists>k<length xs. id' (xs ! k) = i \<and> (\<forall>j<k. id' (xs ! j) \<noteq> i) \<and>
          contents st' = Document (xs[k := e'])"
    by auto
qed

theorem delete_removes_every_match_witness:
  "contents (demo_store [demo_expense ''EXP-20240115-0001'' ''food'' 10,
                         demo_expense ''EXP-20240115-0001'' ''rent'' 20,
                         demo_expense ''EXP-20240115-0002'' ''fuel'' 30]) =
     Document [demo_expense ''EXP-20240115-0001'' ''food'' 10,
               demo_expense ''EXP-20240115-0001'' ''rent'' 20,
               demo_expense ''EXP-20240115-0002'' ''fuel'' 30]
   \<and> delete (demo_store [demo_expense ''EXP-20240115-0001'' ''food'' 10,
                         demo_expense ''EXP-20240115-0001'' ''rent'' 20,
                         demo_expense ''EXP-20240115-0002'' ''fuel'' 30]) ''EXP-20240115-0001''
      = Inr (True, \<lparr> filepath = ''data/expenses.json'',
                     contents = Document [demo_expense ''EXP-20240115-0002'' ''fuel'' 30],
                     write_failure = None, writes = 5 \<rparr>)
   \<and> update (demo_store [demo_expense ''EXP-20240115-0001'' ''food'' 10,
                         demo_expense ''EXP-20240115-0001'' ''rent'' 20,
                         demo_expense ''EXP-20240115-0002'' ''fuel'' 30]) ''EXP-20240115-0001''
        demo_note_update
      = Inr (Some ((demo_expense ''EXP-20240115-0001'' ''food'' 10)\<lparr> note' := ''lunch'' \<rparr>),
             \<lparr> filepath = ''data/expenses.json'',
               contents = Document [(demo_expense ''EXP-20240115-0001'' ''food'' 10)\<lparr> note' := ''lunch'' \<rparr>,
                                    demo_expense ''EXP-20240115-0001'' ''rent'' 20,
                                    demo_expense ''EXP-20240115-0002'' ''fuel'' 30],
               write_failure = None, writes = 5 \<rparr>)
   \<and> (\<exists>k<3. [demo_expense ''EXP-20240115-0001'' ''food'' 10,
               demo_expense ''EXP-20240115-0001'' ''rent'' 20,
               demo_expense ''EXP-20240115-0002'' ''fuel'' 30][k :=
                 (demo_expense ''EXP-20240115-0001'' ''food'' 10)\<lparr> note' := ''lunch'' \<rparr>]
             = [(demo_expense ''EXP-20240115-0001'' ''food'' 10)\<lparr> note' := ''lunch'' \<rparr>,
                demo_expense ''EXP-20240115-0001'' ''rent'' 20,
                demo_expense ''EXP-20240115-0002'' ''fuel'' 30])"
proof -
  let ?a = "demo_expense ''EXP-20240115-0001'' ''food'' 10"
  let ?b = "demo_expense ''EXP-20240115-0001'' ''rent'' 20"
  let ?c = "demo_expense ''EXP-20240115-0002'' ''fuel'' 30"
  let ?xs = "[?a, ?b, ?c]"
  let ?st1 = "\<lparr> filepath = ''data/expenses.json'', contents = Document [?c],
                write_failure = None, writes = 5 \<rparr>"
  let ?st2 = "\<lparr> filepath = ''data/expenses.json'',
                contents = Document [?a\<lparr> note' := ''lunch'' \<rparr>, ?b, ?c],
                write_failure = None, writes = 5 \<rparr>"
  have c: "contents (demo_store ?xs) = Document ?xs"
    by (simp add: demo_store_def)
  have d: "delete (demo_store ?xs) ''EXP-20240115-0001'' = Inr (True, ?st1)"
    by code_simp
  have u: "update (demo_store ?xs) ''EXP-20240115-0001'' demo_note_update
             = Inr (Some (?a\<lparr> note' := ''lunch'' \<rparr>), ?st2)"
    by code_simp
  note T = delete_removes_every_match[OF c, of "''EXP-20240115-0001''" demo_note_update]
  from T u have "\<exists>k<length ?xs. id' (?xs ! k) = ''EXP-20240115-0001'' \<and>
      (\<forall>j<k. id' (?xs ! j) \<noteq> ''EXP-20240115-0001'') \<and>
      contents ?st2 = Document (?xs[k := ?a\<lparr> note' := ''lunch'' \<rparr>])"
    by blast
  then obtain k where k3: "k < length ?xs"
    and ck: "contents ?st2 = Document (?xs[k := ?a\<lparr> note' := ''lunch'' \<rparr>])"
    by blast
  from k3 have "k < 3" by simp
  moreover from ck have "?xs[k := ?a\<lparr> note' := ''lunch'' \<rparr>] = [?a\<lparr> note' := ''lunch'' \<rparr>, ?b, ?c]"
    by (simp only: storage.simps file_state.inject)
  ultimately have k: "\<exists>k<3. ?xs[k := ?a\<lparr> note' := ''lunch'' \<rparr>] = [?a\<lparr> note' := ''lunch'' \<rparr>, ?b, ?c]"
    by blast
  from c d u k show ?thesis by blast
qed




section \<open>Editing\<close>

lemma merged_fields:
  assumes "merged u e = Inr e'"
  shows "id' e' = override (u_id u) (id' e)"
    "date e' = override (u_date u) (date e)"
    "category e' = override (u_category u) (category e)"
    "amount e' = override (u_amount u) (amount e)"
    "currency e' = override (u_currency u) (currency e)"
    "note' e' = override (u_note u) (note' e)"
    "created_at e' = override (u_created_at u) (created_at e)"
  using assms by (auto simp: merged_def split: list.splits)

lemma merged_total: "u_extra u = [] \<Longrightarrow> \<exists>e'. merged u e = Inr e'"
  by (simp add: merged_def)

lemma update_Some:
  assumes doc: "contents st = Document xs"
    and upd: "update st i u = Inr (Some e', st')"
  shows "\<exists>k<length xs. id' (xs ! k) = i \<and> (\<forall>j<k. id' (xs ! j) \<noteq> i) \<and>
           contents st' = Document (xs[k := e']) \<and> merged u (xs ! k) = Inr e'"
proof -
  from upd obtain m where m: "first_index i xs 0 = Some m"
    and c: "contents st' = Document (xs[m := e'])"
    and g: "merged u (xs ! m) = Inr e'"
    unfolding update_Document[OF doc] by (auto split: option.splits sum.splits)
  from first_index_Some[OF m] c g show ?thesis by auto
qed

lemma update_None:
  assumes doc: "contents st = Document xs" and none: "\<forall>e\<in>set xs. id' e \<noteq> i"
  shows "update st i u = Inr (None, st)"
proof -
  from none have "first_index i xs 0 = None" by (simp add: first_index_None)
  then show ?thesis unfolding update_Document[OF doc] by simp
qed

lemma update_total:
  assumes doc: "contents st = Document xs" and some: "\<exists>e\<in>set xs. id' e = i"
    and ex: "u_extra u = []" and w: "write_failure st = None"
  shows "\<exists>e' st'. update st i u = Inr (Some e', st')"
proof -
  from some have "first_index i xs 0 \<noteq> None" by (simp add: first_index_None)
  then obtain m where m: "first_index i xs 0 = Some m" by auto
  from merged_total[OF ex] obtain e' where e': "merged u (xs ! m) = Inr e'" by blast
  show ?thesis unfolding update_Document[OF doc] using m e' w by simp
qed

lemma edit_expense_Inr:
  assumes "edit_expense env st i da c a nt cu = Inr r"
  shows "\<exists>u. edit_updates env da c a nt cu u \<and> update st i u = Inr r"
proof -
  from assms obtain nd nc na where
    nd: "(case da of None \<Rightarrow> Inr None
          | Some d \<Rightarrow> (case format_date env (Some d) of Inl err \<Rightarrow> Inl err | Inr v \<Rightarrow> Inr (Some v)))
         = Inr nd"
    and nc: "(case c of None \<Rightarrow> Inr None
          | Some x \<Rightarrow> (case format_category x of Inl err \<Rightarrow> Inl err | Inr v \<Rightarrow> Inr (Some v)))
         = Inr nc"
    and na: "(case a of None \<Rightarrow> Inr None
          | Some x \<Rightarrow> (case format_amount env x of Inl err \<Rightarrow> Inl err | Inr v \<Rightarrow> Inr (Some v)))
         = Inr na"
    and u: "update st i \<lparr> u_id = None, u_date = nd, u_category = nc, u_amount = na,
              u_currency = cu, u_note = map_option py_strip nt, u_created_at = None,
              u_extra = [] \<rparr> = Inr r"
    unfolding edit_expense_def by (simp split: sum.splits)
  let ?u = "\<lparr> u_id = None, u_date = nd, u_category = nc, u_amount = na,
              u_currency = cu, u_note = map_option py_strip nt, u_created_at = None,
              u_extra = [] \<rparr>"
  have "edit_updates env da c a nt cu ?u"
    using nd nc na by (auto simp: edit_updates_def split: option.splits sum.splits)
  with u show ?thesis by blast
qed

lemma edit_expense_total:
  assumes "edit_updates env da c a nt cu u"
  shows "edit_expense env st i da c a nt cu = update st i u"
proof -
  from assms have u: "u = \<lparr> u_id = None, u_date = u_date u, u_category = u_category u,
       u_amount = u_amount u, u_currency = cu, u_note = map_option py_strip nt,
       u_created_at = None, u_extra = [] \<rparr>"
    by (cases u) (simp add: edit_updates_def)
  from assms have "edit_expense env st i da c a nt cu =
      update st i \<lparr> u_id = None, u_date = u_date u, u_category = u_category u,
       u_amount = u_amount u, u_currency = cu, u_note = map_option py_strip nt,
       u_created_at = None, u_extra = [] \<rparr>"
    unfolding edit_expense_def edit_updates_def
    by (auto split: option.splits)
  with u show ?thesis by simp
qed

text \<open>
  Claim C6. \<open>update\<close> replaces the record at the first position whose id is the given one by
  that record with the supplied fields set and every other field as before, saves, and
  returns the new record; \<open>edit_expense\<close> does so with the formatted values of the fields it
  was given and never changes \<open>id\<close> or \<open>created_at\<close>. When no record has the id, both
  return \<open>None\<close> and the storage is as it was.
\<close>

theorem update_changes_only_supplied_fields:
  assumes doc: "contents st = Document xs"
  shows
    "((\<forall>e\<in>set xs. id' e \<noteq> i) \<longrightarrow> update st i u = Inr (None, st))
     \<and> ((\<forall>e\<in>set xs. id' e \<noteq> i) \<longrightarrow>
          (\<forall>r st'. edit_expense env st i da c a nt cu = Inr (r, st') \<longrightarrow> r = None \<and> st' = st))
     \<and> (\<forall>e' st'. update st i u = Inr (Some e', st') \<longrightarrow>
          (\<exists>k<length xs. id' (xs ! k) = i \<and> (\<forall>j<k. id' (xs ! j) \<noteq> i) \<and>
             contents st' = Document (xs[k := e']) \<and>
             id' e' = override (u_id u) (id' (xs ! k)) \<and>
             date e' = override (u_date u) (date (xs ! k)) \<and>
             category e' = override (u_category u) (category (xs ! k)) \<and>
             amount e' = override (u_amount u) (amount (xs ! k)) \<and>
             currency e' = override (u_currency u) (currency (xs ! k)) \<and>
             note' e' = override (u_note u) (note' (xs ! k)) \<and>
             created_at e' = override (u_created_at u) (created_at (xs ! k))))
     \<and> (\<forall>e' st'. edit_expense env st i da c a nt cu = Inr (Some e', st') \<longrightarrow>
          (\<exists>k<length xs. id' (xs ! k) = i \<and> (\<forall>j<k. id' (xs ! j) \<noteq> i) \<and>
             contents st' = Document (xs[k := e']) \<and>
             id' e' = id' (xs ! k) \<and>
             created_at e' = created_at (xs ! k) \<and>
             (case da of None \<Rightarrow> date e' = date (xs ! k)
                       | Some d \<Rightarrow> format_date env (Some d) = Inr (date e')) \<and>
             (case c of None \<Rightarrow> category e' = category (xs ! k)
                      | Some x \<Rightarrow> format_category x = Inr (category e')) \<and>
             (case a of None \<Rightarrow> amount e' = amount (xs ! k)
                      | Some x \<Rightarrow> format_amount env x = Inr (amount e')) \<and>
             (case nt of None \<Rightarrow> note' e' = note' (xs ! k)
                       | Some x \<Rightarrow> note' e' = py_strip x) \<and>
             (case cu of None \<Rightarrow> currency e' = currency (xs ! k)
                       | Some x \<Rightarrow> currency e' = x)))
     \<and> ((\<exists>e\<in>set xs. id' e = i) \<longrightarrow> u_extra u = [] \<longrightarrow> write_failure st = None \<longrightarrow>
          (\<exists>e' st'. update st i u = Inr (Some e', st')))"
proof (intro conjI allI impI)
  assume "\<forall>e\<in>set xs. id' e \<noteq> i"
  then show "update st i u = Inr (None, st)"
    by (rule update_None[OF doc])
next
  fix r st'
  assume none: "\<forall>e\<in>set xs. id' e \<noteq> i"
    and ed: "edit_expense env st i da c a nt cu = Inr (r, st')"
  from edit_expense_Inr[OF ed] obtain v where "update st i v = Inr (r, st')" by blast
  with update_None[OF doc none, of v] show "r = None" and "st' = st" by simp_all
next
  fix e' st'
  assume upd: "update st i u = Inr (Some e', st')"
  from update_Some[OF doc upd] obtain k where
    k: "k < length xs" "id' (xs ! k) = i" "\<forall>j<k. id' (xs ! j) \<noteq> i"
      "contents st' = Document (xs[k := e'])"
    and g: "merged u (xs ! k) = Inr e'"
    by blast
  from k merged_fields[OF g]
  show "\<exists>k<length xs. id' (xs ! k) = i \<and> (\<forall>j<k. id' (xs ! j) \<noteq> i) \<and>
             contents st' = Document (xs[k := e']) \<and>
             id' e' = override (u_id u) (id' (xs ! k)) \<and>
             date e' = override (u_date u) (date (xs ! k)) \<and>
             category e' = override (u_category u) (category (xs ! k)) \<and>
             amount e' = override (u_amount u) (amount (xs ! k)) \<and>
             currency e' = override (u_currency u) (currency (xs ! k)) \<and>
             note' e' = override (u_note u) (note' (xs ! k)) \<and>
             created_at e' = override (u_created_at u) (created_at (xs ! k))"
    by blast
next
  fix e' st'
  assume ed: "edit_expense env st i da c a nt cu = Inr (Some e', st')"
  from edit_expense_Inr[OF ed] obtain v where
    v: "edit_updates env da c a nt cu v" and upd: "update st i v = Inr (Some e', st')"
    by blast
  from update_Some[OF doc upd] obtain k where
    k: "k < length xs" "id' (xs ! k) = i" "\<forall>j<k. id' (xs ! j) \<noteq> i"
      "contents st' = Document (xs[k := e'])"
    and g: "merged v (xs ! k) = Inr e'"
    by blast
  note f = merged_fields[OF g]
  have 1: "id' e' = id' (xs ! k)" "created_at e' = created_at (xs ! k)"
    using v f(1,7) by (simp_all add: edit_updates_def override_def)
  have 2: "case da of None \<Rightarrow> date e' = date (xs ! k)
                    | Some d \<Rightarrow> format_date env (Some d) = Inr (date e')"
    using v f(2) by (auto simp: edit_updates_def override_def split: option.splits)
  have 3: "case c of None \<Rightarrow> category e' = category (xs ! k)
                   | Some x \<Rightarrow> format_category x = Inr (category e')"
    using v f(3) by (auto simp: edit_updates_def override_def split: option.splits)
  have 4: "case a of None \<Rightarrow> amount e' = amount (xs ! k)
                   | Some x \<Rightarrow> format_amount env x = Inr (amount e')"
    using v f(4) by (auto simp: edit_updates_def override_def split: option.splits)
  have 5: "case nt of None \<Rightarrow> note' e' = note' (xs ! k) | Some x \<Rightarrow> note' e' = py_strip x"
    using v f(6) by (auto simp: edit_updates_def override_def split: option.splits)
  have 6: "case cu of None \<Rightarrow> currency e' = currency (xs ! k) | Some x \<Rightarrow> currency e' = x"
    using v f(5) by (auto simp: edit_updates_def override_def split: option.splits)
  from k 1 2 3 4 5 6
  show "\<exists>k<length xs. id' (xs ! k) = i \<and> (\<forall>j<k. id' (xs ! j) \<noteq> i) \<and>
             contents st' = Document (xs[k := e']) \<and>
             id' e' = id' (xs ! k) \<and>
             created_at e' = created_at (xs ! k) \<and>
             (case da of None \<Rightarrow> date e' = date (xs ! k)
                       | Some d \<Rightarrow> format_date env (Some d) = Inr (date e')) \<and>
             (case c of None \<Rightarrow> category e' = category (xs ! k)
                      | Some x \<Rightarrow> format_category x = Inr (category e')) \<and>
             (case a of None \<Rightarrow> amount e' = amount (xs ! k)
                      | Some x \<Rightarrow> format_amount env x = Inr (amount e')) \<and>
             (case nt of None \<Rightarrow> note' e' = note' (xs ! k)
                       | Some x \<Rightarrow> note' e' = py_strip x) \<and>
             (case cu of None \<Rightarrow> currency e' = currency (xs ! k)
                       | Some x \<Rightarrow> currency e' = x)"
    by blast
next
  assume "\<exists>e\<in>set xs. id' e = i" "u_extra u = []" "write_failure st = None"
  then show "\<exists>e' st'. update st i u = Inr (Some e', st')"
    by (rule update_total[OF doc])
qed

theorem update_changes_only_supplied_fields_witness:
  "contents (demo_store [demo_expense ''EXP-20240115-0001'' ''food'' 10,
                         demo_expense ''EXP-20240115-0002'' ''rent'' 20])
     = Document [demo_expense ''EXP-20240115-0001'' ''food'' 10,
                 demo_expense ''EXP-20240115-0002'' ''rent'' 20]
   \<and> update (demo_store [demo_expense ''EXP-20240115-0001'' ''food'' 10,
                         demo_expense ''EXP-20240115-0002'' ''rent'' 20])
        ''EXP-20240115-0009'' demo_note_update
      = Inr (None, demo_store [demo_expense ''EXP-20240115-0001'' ''food'' 10,
                               demo_expense ''EXP-20240115-0002'' ''rent'' 20])
   \<and> edit_expense demo_env (demo_store [demo_expense ''EXP-20240115-0001'' ''food'' 10,
                                        demo_expense ''EXP-20240115-0002'' ''rent'' 20])
        ''EXP-20240115-0009'' None (Some ''rent'') None None None
      = Inr (None, demo_store [demo_expense ''EXP-20240115-0001'' ''food'' 10,
                               demo_expense ''EXP-20240115-0002'' ''rent'' 20])
   \<and> edit_expense demo_env (demo_store [demo_expense ''EXP-20240115-0001'' ''food'' 10,
                                        demo_expense ''EXP-20240115-0002'' ''rent'' 20])
        ''EXP-20240115-0002'' None (Some ''  Housing '') (Some (Float (F64 25))) None None
      = Inr (Some ((demo_expense ''EXP-20240115-0002'' ''rent'' 20)
                     \<lparr> category := ''housing'', amount := F64 25 \<rparr>),
             \<lparr> filepath = ''data/expenses.json'',
               contents = Document [demo_expense ''EXP-20240115-0001'' ''food'' 10,
                                    (demo_expense ''EXP-20240115-0002'' ''rent'' 20)
                                      \<lparr> category := ''housing'', amount := F64 25 \<rparr>],
               write_failure = None, writes = 4 \<rparr>)
   \<and> (\<exists>k<2. id' ([demo_expense ''EXP-20240115-0001'' ''food'' 10,
                    demo_expense ''EXP-20240115-0002'' ''rent'' 20] ! k) = ''EXP-20240115-0002'' \<and>
            id' ((demo_expense ''EXP-20240115-0002'' ''rent'' 20)
                     \<lparr> category := ''housing'', amount := F64 25 \<rparr>)
              = id' ([demo_expense ''EXP-20240115-0001'' ''food'' 10,
                      demo_expense ''EXP-20240115-0002'' ''rent'' 20] ! k) \<and>
            created_at ((demo_expense ''EXP-20240115-0002'' ''rent'' 20)
                     \<lparr> category := ''housing'', amount := F64 25 \<rparr>)
              = created_at ([demo_expense ''EXP-20240115-0001'' ''food'' 10,
                             demo_expense ''EXP-20240115-0002'' ''rent'' 20] ! k))
   \<and> update (demo_store [demo_expense ''EXP-20240115-0001'' ''food'' 10,
                         demo_expense ''EXP-20240115-0002'' ''rent'' 20])
        ''EXP-20240115-0001'' demo_note_update
      = Inr (Some ((demo_expense ''EXP-20240115-0001'' ''food'' 10)\<lparr> note' := ''lunch'' \<rparr>),
             \<lparr> filepath = ''data/expenses.json'',
               contents = Document [(demo_expense ''EXP-20240115-0001'' ''food'' 10)
                                      \<lparr> note' := ''lunch'' \<rparr>,
                                    demo_expense ''EXP-20240115-0002'' ''rent'' 20],
               write_failure = None, writes = 4 \<rparr>)"
proof -
  let ?a = "demo_expense ''EXP-20240115-0001'' ''food'' 10"
  let ?b = "demo_expense ''EXP-20240115-0002'' ''rent'' 20"
  let ?b' = "?b\<lparr> category := ''housing'', amount := F64 25 \<rparr>"
  let ?xs = "[?a, ?b]"
  let ?st = "demo_store ?xs"
  let ?st1 = "\<lparr> filepath = ''data/expenses.json'', contents = Document [?a, ?b'],
                write_failure = None, writes = 4 \<rparr>"
  have doc: "contents ?st = Document ?xs"
    by (simp add: demo_store_def)
  have absent: "\<forall>e\<in>set ?xs. id' e \<noteq> ''EXP-20240115-0009''"
    by (simp add: demo_expense_def)
  have present: "\<exists>e\<in>set ?xs. id' e = ''EXP-20240115-0001''"
    by (simp add: demo_expense_def)
  have w: "u_extra demo_note_update = []" "write_failure ?st = None"
    by (simp_all add: demo_note_update_def demo_store_def)
  have e0: "edit_expense demo_env ?st ''EXP-20240115-0009'' None (Some ''rent'') None None None
              = Inr (None, ?st)"
    by code_simp
  have e1: "edit_expense demo_env ?st ''EXP-20240115-0002'' None (Some ''  Housing '')
              (Some (Float (F64 25))) None None = Inr (Some ?b', ?st1)"
    by code_simp
  have u1: "update ?st ''EXP-20240115-0001'' demo_note_update
      = Inr (Some (?a\<lparr> note' := ''lunch'' \<rparr>),
             \<lparr> filepath = ''data/expenses.json'',
               contents = Document [?a\<lparr> note' := ''lunch'' \<rparr>, ?b],
               write_failure = None, writes = 4 \<rparr>)"
    by code_simp
  note T0 = update_changes_only_supplied_fields[OF doc, of "''EXP-20240115-0009''"
      demo_note_update demo_env None "Some ''rent''" None None None]
  note T1 = update_changes_only_supplied_fields[OF doc, of "''EXP-20240115-0002''"
      demo_note_update demo_env None "Some ''  Housing ''" "Some (Float (F64 25))" None None]
  note T2 = update_changes_only_supplied_fields[OF doc, of "''EXP-20240115-0001''"
      demo_note_update demo_env None None None None None]
  from T0 absent have u0: "update ?st ''EXP-20240115-0009'' demo_note_update = Inr (None, ?st)"
    by blast
  from T1 e1 have "\<exists>k<length ?xs. id' (?xs ! k) = ''EXP-20240115-0002'' \<and>
      id' ?b' = id' (?xs ! k) \<and> created_at ?b' = created_at (?xs ! k)"
    by blast
  then have k: "\<exists>k<2. id' (?xs ! k) = ''EXP-20240115-0002'' \<and>
      id' ?b' = id' (?xs ! k) \<and> created_at ?b' = created_at (?xs ! k)"
    by (simp only: list.size One_nat_def[symmetric] Suc_1 add_0 plus_1_eq_Suc)
  from T2 present w have "\<exists>e' st'. update ?st ''EXP-20240115-0001'' demo_note_update = Inr (Some e', st')"
    by blast
  from doc u0 e0 e1 k u1 show ?thesis by blast
qed

section \<open>Formatting amounts\<close>

lemma contains_prefix: "contains sub (sub @ rest)"
proof (cases "sub @ rest")
  case Nil
  then show ?thesis by simp
next
  case (Cons c cs)
  have "take (length sub) (sub @ rest) = sub" by simp
  then show ?thesis unfolding Cons by simp
qed

lemma format_amount_eq:
  "format_amount env a =
     (case py_float env a of
        Inl e \<Rightarrow> Inl (ValueError ''Error: amount must be a valid number'')
      | Inr x \<Rightarrow> if x \<le> 0 then Inl (ValueError ''Error: amount must be > 0'')
                 else Inr (py_round2 x))"
proof (cases a)
  case (Float x)
  have "\<not> contains ''could not convert'' ''Error: amount must be > 0''"
    by code_simp
  then show ?thesis
    using Float by (simp add: format_amount_def py_float_def validate_amount_def)
next
  case (Str s)
  have c: "contains ''could not convert'' (''could not convert'' @ '' string to float: '' @ s)"
    by (rule contains_prefix)
  have n: "\<not> contains ''could not convert'' ''Error: amount must be > 0''"
    by code_simp
  show ?thesis
  proof (cases "float_of_str env s")
    case None
    have "format_amount env a =
        (case Inl (ValueError (''could not convert'' @ '' string to float: '' @ s)) :: error + f64 of
           Inl (ValueError msg) \<Rightarrow>
             if contains ''could not convert'' msg
             then Inl (ValueError ''Error: amount must be a valid number'')
             else Inl (ValueError msg)
         | other \<Rightarrow> other)"
      using Str None by (simp add: format_amount_def py_float_def)
    also have "\<dots> = Inl (ValueError ''Error: amount must be a valid number'')"
      using c by (simp only: sum.case error.case if_True)
    finally show ?thesis using Str None by (simp add: py_float_def)
  next
    case (Some x)
    then show ?thesis
      using Str n by (simp add: format_amount_def py_float_def validate_amount_def)
  qed
qed

text \<open>
  Claim C8. \<open>format_amount\<close> fails exactly when its argument is a string \<open>float\<close> cannot read
  or when the number is at most 0, with the message of that case, and otherwise returns
  \<open>round(x, 2)\<close>. So 0 and -5 are refused, 0.01 is returned as it is, 10.005 (as the binary64
  number nearest to it, which lies above) becomes 10.01 and the exact tie 0.125 becomes 0.12.
\<close>

theorem format_amount_rejects_exactly_nonpositive:
  "format_amount env a =
     (case py_float env a of
        Inl e \<Rightarrow> Inl (ValueError ''Error: amount must be a valid number'')
      | Inr x \<Rightarrow> if x \<le> 0 then Inl (ValueError ''Error: amount must be > 0'')
                 else Inr (py_round2 x))
   \<and> ((\<exists>e. format_amount env a = Inl e) \<longleftrightarrow>
        (\<exists>s. a = Str s \<and> float_of_str env s = None) \<or> (\<exists>x. py_float env a = Inr x \<and> x \<le> 0))
   \<and> format_amount env (Float (F64 0)) = Inl (ValueError ''Error: amount must be > 0'')
   \<and> format_amount env (Float (F64 (- 5))) = Inl (ValueError ''Error: amount must be > 0'')
   \<and> format_amount env (Float (F64 (5764607523034235 / 576460752303423488)))
        = Inr (F64 (5764607523034235 / 576460752303423488))
   \<and> format_amount env (Float (F64 (5632314283980227 / 562949953421312)))
        = Inr (F64 (5635129033747333 / 562949953421312))
   \<and> format_amount env (Float (F64 (1 / 8))) = Inr (F64 (1080863910568919 / 9007199254740992))"
proof (intro conjI)
  show "format_amount env a =
     (case py_float env a of
        Inl e \<Rightarrow> Inl (ValueError ''Error: amount must be a valid number'')
      | Inr x \<Rightarrow> if x \<le> 0 then Inl (ValueError ''Error: amount must be > 0'')
                 else Inr (py_round2 x))"
    by (rule format_amount_eq)
  show "(\<exists>e. format_amount env a = Inl e) \<longleftrightarrow>
        (\<exists>s. a = Str s \<and> float_of_str env s = None) \<or> (\<exists>x. py_float env a = Inr x \<and> x \<le> 0)"
    unfolding format_amount_eq
    by (cases a) (auto simp: py_float_def split: option.splits)
  show "format_amount env (Float (F64 0)) = Inl (ValueError ''Error: amount must be > 0'')"
    unfolding format_amount_eq by (simp add: py_float_def less_eq_f64_def zero_f64_def)
  show "format_amount env (Float (F64 (- 5))) = Inl (ValueError ''Error: amount must be > 0'')"
    unfolding format_amount_eq by (simp add: py_float_def less_eq_f64_def zero_f64_def)
  have r1: "py_round2 (F64 (5764607523034235 / 576460752303423488))
              = F64 (5764607523034235 / 576460752303423488)"
    by code_simp
  show "format_amount env (Float (F64 (5764607523034235 / 576460752303423488)))
        = Inr (F64 (5764607523034235 / 576460752303423488))"
    unfolding format_amount_eq by (simp add: py_float_def less_eq_f64_def r1 zero_f64_def)
  have r2: "py_round2 (F64 (5632314283980227 / 562949953421312))
              = F64 (5635129033747333 / 562949953421312)"
    by code_simp
  show "format_amount env (Float (F64 (5632314283980227 / 562949953421312)))
        = Inr (F64 (5635129033747333 / 562949953421312))"
    unfolding format_amount_eq by (simp add: py_float_def less_eq_f64_def r2 zero_f64_def)
  have r3: "py_round2 (F64 (1 / 8)) = F64 (1080863910568919 / 9007199254740992)"
    by code_simp
  show "format_amount env (Float (F64 (1 / 8))) = Inr (F64 (1080863910568919 / 9007199254740992))"
    unfolding format_amount_eq by (simp add: py_float_def less_eq_f64_def r3 zero_f64_def)
qed

section \<open>Listing\<close>

lemma opt_string_filter:
  "(case s of None \<Rightarrow> ys | Some t \<Rightarrow> if t = [] then ys else filter (P t) ys)
     = filter (\<lambda>e. case s of None \<Rightarrow> True | Some t \<Rightarrow> t = [] \<or> P t e) ys"
  by (cases s) auto

lemma opt_filter:
  "(case s of None \<Rightarrow> ys | Some t \<Rightarrow> filter (P t) ys)
     = filter (\<lambda>e. case s of None \<Rightarrow> True | Some t \<Rightarrow> P t e) ys"
  by (cases s) auto

lemma apply_filters_eq:
  "apply_filters xs month from_date to_date categ lo hi
     = filter (matches month from_date to_date categ lo hi) xs"
proof -
  have "apply_filters xs month from_date to_date categ lo hi =
      filter (\<lambda>e. case hi of None \<Rightarrow> True | Some h \<Rightarrow> amount e \<le> h)
       (filter (\<lambda>e. case lo of None \<Rightarrow> True | Some l \<Rightarrow> l \<le> amount e)
         (filter (\<lambda>e. case categ of None \<Rightarrow> True
                       | Some c \<Rightarrow> c = [] \<or> py_lower (category e) = py_lower c)
           (filter (\<lambda>e. case to_date of None \<Rightarrow> True | Some t \<Rightarrow> t = [] \<or> date e \<le> t)
             (filter (\<lambda>e. case from_date of None \<Rightarrow> True | Some f \<Rightarrow> f = [] \<or> f \<le> date e)
               (filter (\<lambda>e. case month of None \<Rightarrow> True
                             | Some m \<Rightarrow> m = [] \<or> startswith (date e) m) xs)))))"
    unfolding apply_filters_def Let_def
    by (simp only: opt_string_filter opt_filter)
  also have "\<dots> = filter (matches month from_date to_date categ lo hi) xs"
    unfolding filter_filter by (rule filter_cong) (auto simp: matches_def)
  finally show ?thesis .
qed

lemma py_sorted_mset: "mset (py_sorted key d ys) = mset ys"
  by (simp add: py_sorted_def)

lemma py_sorted_in_order: "in_order key d (py_sorted key d ys)"
  by (simp add: py_sorted_def in_order_def rev_map[symmetric])

lemma py_sorted_ties: "ties_as_in key (py_sorted key d ys) ys"
proof -
  have "filter (\<lambda>e. key e = k) (rev (sort_key key (rev ys))) = filter (\<lambda>e. key e = k) ys" for k
    by (simp add: rev_filter[symmetric] sort_key_stable)
  then show ?thesis
    by (simp add: py_sorted_def ties_as_in_def sort_key_stable)
qed

lemma startswith_iff: "startswith s p \<longleftrightarrow> (\<exists>r. s = p @ r)"
  unfolding startswith_def
  by (metis append_eq_conv_conj append_take_drop_id)

lemma list_expenses_Document:
  assumes "contents st = Document xs"
  shows "list_expenses st month from_date to_date categ lo hi sort_by descending limit =
     Inr ((case limit of
             None \<Rightarrow> sort_expenses (filter (matches month from_date to_date categ lo hi) xs)
                       sort_by descending
           | Some n \<Rightarrow>
               if 0 < n
               then take (nat n) (sort_expenses (filter (matches month from_date to_date categ lo hi) xs)
                                    sort_by descending)
               else sort_expenses (filter (matches month from_date to_date categ lo hi) xs)
                      sort_by descending), st)"
  by (simp add: list_expenses_def load_all_Document[OF assms] apply_filters_eq Let_def
      split: option.splits)

text \<open>
  Claim C3, as amended. \<open>list_expenses\<close> returns the records that satisfy every filter that is
  given and not empty (\<open>month\<close> as a prefix of the date, \<open>from_date\<close> and \<open>to_date\<close> as inclusive
  bounds in string order, \<open>category\<close> compared in lower case; a filter that is \<open>None\<close> or the
  empty string is ignored) and the amount bounds that are not \<open>None\<close>, sorted by amount,
  category or (for any other \<open>sort_by\<close>) date, ascending or descending, records with equal
  keys in the order of the collection, and cut to the first \<open>limit\<close> records when \<open>limit\<close> is
  positive. The storage is not changed.
\<close>

theorem list_expenses_filters_sorts_limits:
  assumes "contents st = Document xs"
  shows "\<exists>r. list_expenses st month from_date to_date categ lo hi sort_by descending limit =
              Inr ((case limit of None \<Rightarrow> r | Some n \<Rightarrow> if 0 < n then take (nat n) r else r), st)
           \<and> mset r = mset (filter (matches month from_date to_date categ lo hi) xs)
           \<and> (if sort_by = ''amount''
               then in_order amount descending r \<and>
                    ties_as_in amount r (filter (matches month from_date to_date categ lo hi) xs)
               else if sort_by = ''category''
               then in_order category descending r \<and>
                    ties_as_in category r (filter (matches month from_date to_date categ lo hi) xs)
               else in_order date descending r \<and>
                    ties_as_in date r (filter (matches month from_date to_date categ lo hi) xs))"
proof -
  let ?ys = "filter (matches month from_date to_date categ lo hi) xs"
  let ?r = "sort_expenses ?ys sort_by descending"
  have 1: "list_expenses st month from_date to_date categ lo hi sort_by descending limit =
              Inr ((case limit of None \<Rightarrow> ?r | Some n \<Rightarrow> if 0 < n then take (nat n) ?r else ?r), st)"
    unfolding list_expenses_Document[OF assms] by (simp split: option.splits)
  have 2: "mset ?r = mset ?ys"
    by (simp add: sort_expenses_def py_sorted_mset)
  have 3: "if sort_by = ''amount''
               then in_order amount descending ?r \<and> ties_as_in amount ?r ?ys
               else if sort_by = ''category''
               then in_order category descending ?r \<and> ties_as_in category ?r ?ys
               else in_order date descending ?r \<and> ties_as_in date ?r ?ys"
    by (simp add: sort_expenses_def py_sorted_in_order py_sorted_ties)
  from 1 2 3 show ?thesis by blast
qed

theorem list_expenses_filters_sorts_limits_witness:
  "contents (demo_store [demo_expense ''EXP-20240115-0001'' ''food'' 10,
                         demo_expense ''EXP-20240115-0002'' ''food'' 20,
                         on_date ''2024-01-16'' (demo_expense ''EXP-20240116-0001'' ''food'' 20),
                         demo_expense ''EXP-20240115-0003'' ''rent'' 15,
                         demo_expense ''EXP-20240115-0004'' ''food'' 30,
                         on_date ''2024-02-01'' (demo_expense ''EXP-20240201-0001'' ''food'' 12)])
     = Document [demo_expense ''EXP-20240115-0001'' ''food'' 10,
                 demo_expense ''EXP-20240115-0002'' ''food'' 20,
                 on_date ''2024-01-16'' (demo_expense ''EXP-20240116-0001'' ''food'' 20),
                 demo_expense ''EXP-20240115-0003'' ''rent'' 15,
                 demo_expense ''EXP-20240115-0004'' ''food'' 30,
                 on_date ''2024-02-01'' (demo_expense ''EXP-20240201-0001'' ''food'' 12)]
   \<and> list_expenses
         (demo_store [demo_expense ''EXP-20240115-0001'' ''food'' 10,
                      demo_expense ''EXP-20240115-0002'' ''food'' 20,
                      on_date ''2024-01-16'' (demo_expense ''EXP-20240116-0001'' ''food'' 20),
                      demo_expense ''EXP-20240115-0003'' ''rent'' 15,
                      demo_expense ''EXP-20240115-0004'' ''food'' 30,
                      on_date ''2024-02-01'' (demo_expense ''EXP-20240201-0001'' ''food'' 12)])
         (Some ''2024-01'') None None (Some ''Food'') (Some (F64 10)) (Some (F64 20))
         ''amount'' True (Some 2)
       = Inr ([demo_expense ''EXP-20240115-0002'' ''food'' 20,
               on_date ''2024-01-16'' (demo_expense ''EXP-20240116-0001'' ''food'' 20)],
              demo_store [demo_expense ''EXP-20240115-0001'' ''food'' 10,
                          demo_expense ''EXP-20240115-0002'' ''food'' 20,
                          on_date ''2024-01-16'' (demo_expense ''EXP-20240116-0001'' ''food'' 20),
                          demo_expense ''EXP-20240115-0003'' ''rent'' 15,
                          demo_expense ''EXP-20240115-0004'' ''food'' 30,
                          on_date ''2024-02-01'' (demo_expense ''EXP-20240201-0001'' ''food'' 12)])
   \<and> (\<exists>r. [demo_expense ''EXP-20240115-0002'' ''food'' 20,
             on_date ''2024-01-16'' (demo_expense ''EXP-20240116-0001'' ''food'' 20)] = take 2 r
          \<and> in_order amount True r)"
proof -
  let ?xs = "[demo_expense ''EXP-20240115-0001'' ''food'' 10,
              demo_expense ''EXP-20240115-0002'' ''food'' 20,
              on_date ''2024-01-16'' (demo_expense ''EXP-20240116-0001'' ''food'' 20),
              demo_expense ''EXP-20240115-0003'' ''rent'' 15,
              demo_expense ''EXP-20240115-0004'' ''food'' 30,
              on_date ''2024-02-01'' (demo_expense ''EXP-20240201-0001'' ''food'' 12)]"
  let ?out = "[demo_expense ''EXP-20240115-0002'' ''food'' 20,
               on_date ''2024-01-16'' (demo_expense ''EXP-20240116-0001'' ''food'' 20)]"
  have c: "contents (demo_store ?xs) = Document ?xs"
    by (simp add: demo_store_def)
  have l: "list_expenses (demo_store ?xs) (Some ''2024-01'') None None (Some ''Food'')
             (Some (F64 10)) (Some (F64 20)) ''amount'' True (Some 2)
           = Inr (?out, demo_store ?xs)"
    by code_simp
  from list_expenses_filters_sorts_limits[OF c, of "Some ''2024-01''" None None "Some ''Food''"
      "Some (F64 10)" "Some (F64 20)" "''amount''" True "Some 2"]
  obtain r where
    r: "list_expenses (demo_store ?xs) (Some ''2024-01'') None None (Some ''Food'')
             (Some (F64 10)) (Some (F64 20)) ''amount'' True (Some 2)
        = Inr ((case Some (2::int) of None \<Rightarrow> r | Some n \<Rightarrow> if 0 < n then take (nat n) r else r),
               demo_store ?xs)"
    and o: "in_order amount True r"
    by auto
  from r l have "?out = take 2 r" by simp
  with o have "\<exists>r. ?out = take 2 r \<and> in_order amount True r" by blast
  with c l show ?thesis by blast
qed

theorem list_expenses_empty_to_date_counterexample:
  "list_expenses (demo_store [demo_expense ''EXP-20240115-0001'' ''food'' 10])
       None None (Some '''') None None None ''date'' False None
     = Inr ([demo_expense ''EXP-20240115-0001'' ''food'' 10],
            demo_store [demo_expense ''EXP-20240115-0001'' ''food'' 10])
   \<and> \<not> date (demo_expense ''EXP-20240115-0001'' ''food'' 10) \<le> ''''"
proof -
  have "list_expenses (demo_store [demo_expense ''EXP-20240115-0001'' ''food'' 10])
       None None (Some '''') None None None ''date'' False None
     = Inr ([demo_expense ''EXP-20240115-0001'' ''food'' 10],
            demo_store [demo_expense ''EXP-20240115-0001'' ''food'' 10])"
    by code_simp
  moreover have "\<not> date (demo_expense ''EXP-20240115-0001'' ''food'' 10) \<le> ''''"
    by (simp add: demo_expense_def)
  ultimately show ?thesis by blast
qed

section \<open>Summaries\<close>

lemma list_expenses_default:
  assumes "contents st = Document xs"
  shows "list_expenses st m f t c None None ''date'' False None =
           Inr (sort_key date (filter (matches m f t c None None) xs), st)"
  unfolding list_expenses_Document[OF assms]
  by (simp add: sort_expenses_def py_sorted_def)

lemma summary_Document:
  assumes "contents st = Document xs"
  shows "summary st m f t c =
     Inr ((case sort_key date (filter (matches m f t c None None) xs) of
             [] \<Rightarrow> \<lparr> count' = 0, grand_total = 0, totals_by_category = [],
                     currency' = ''BDT'', period = get_period_description m f t \<rparr>
           | first # rest \<Rightarrow>
               \<lparr> count' = length (first # rest),
                 grand_total = py_sum (map amount (first # rest)),
                 totals_by_category = foldl category_step [] (first # rest),
                 currency' = currency first,
                 period = get_period_description m f t \<rparr>), st)"
  unfolding summary_def list_expenses_default[OF assms]
  by (simp split: list.splits)

lemma sorted_first_least:
  assumes "sort_key key ys = first # rest"
  shows "first \<in> set ys" "\<forall>e\<in>set ys. key first \<le> key e"
    "filter (\<lambda>e. key e = key first) ys = first # filter (\<lambda>e. key e = key first) rest"
proof -
  have s: "set ys = set (first # rest)"
    using assms by (metis set_sort)
  then show "first \<in> set ys" by simp
  have "sorted (map key (first # rest))"
    using assms by (metis sorted_sort_key)
  then show "\<forall>e\<in>set ys. key first \<le> key e"
    using s by auto
  have "filter (\<lambda>e. key e = key first) ys = filter (\<lambda>e. key e = key first) (sort_key key ys)"
    by (simp add: sort_key_stable)
  then show "filter (\<lambda>e. key e = key first) ys = first # filter (\<lambda>e. key e = key first) rest"
    unfolding assms by simp
qed

text \<open>
  Claim C2, as amended. \<open>summary\<close> works on what \<open>list_expenses\<close> returns for the same four
  filters with its defaults: the selected records sorted by date, ascending and stable, with
  no limit and no amount bounds. The currency label is the currency of the first record of
  that sorted selection, that is, of the first record in collection order among the
  selected ones with the earliest date.
\<close>

theorem summary_uses_date_sorted_selection:
  assumes "contents st = Document xs"
  shows "list_expenses st m f t c None None ''date'' False None =
           Inr (sort_key date (filter (matches m f t c None None) xs), st)
         \<and> summary st m f t c =
             Inr ((case sort_key date (filter (matches m f t c None None) xs) of
                     [] \<Rightarrow> \<lparr> count' = 0, grand_total = 0, totals_by_category = [],
                             currency' = ''BDT'', period = get_period_description m f t \<rparr>
                   | first # rest \<Rightarrow>
                       \<lparr> count' = length (first # rest),
                         grand_total = py_sum (map amount (first # rest)),
                         totals_by_category = foldl category_step [] (first # rest),
                         currency' = currency first,
                         period = get_period_description m f t \<rparr>), st)
         \<and> (\<forall>first rest.
               sort_key date (filter (matches m f t c None None) xs) = first # rest \<longrightarrow>
               first \<in> set (filter (matches m f t c None None) xs) \<and>
               (\<forall>e\<in>set (filter (matches m f t c None None) xs). date first \<le> date e) \<and>
               filter (\<lambda>e. date e = date first) (filter (matches m f t c None None) xs)
                 = first # filter (\<lambda>e. date e = date first) rest)"
proof (intro conjI allI impI)
  show "list_expenses st m f t c None None ''date'' False None =
           Inr (sort_key date (filter (matches m f t c None None) xs), st)"
    by (rule list_expenses_default[OF assms])
  show "summary st m f t c =
             Inr ((case sort_key date (filter (matches m f t c None None) xs) of
                     [] \<Rightarrow> \<lparr> count' = 0, grand_total = 0, totals_by_category = [],
                             currency' = ''BDT'', period = get_period_description m f t \<rparr>
                   | first # rest \<Rightarrow>
                       \<lparr> count' = length (first # rest),
                         grand_total = py_sum (map amount (first # rest)),
                         totals_by_category = foldl category_step [] (first # rest),
                         currency' = currency first,
                         period = get_period_description m f t \<rparr>), st)"
    by (rule summary_Document[OF assms])
next
  fix first rest
  assume s: "sort_key date (filter (matches m f t c None None) xs) = first # rest"
  show "first \<in> set (filter (matches m f t c None None) xs)"
    by (rule sorted_first_least(1)[OF s])
  show "\<forall>e\<in>set (filter (matches m f t c None None) xs). date first \<le> date e"
    by (rule sorted_first_least(2)[OF s])
  show "filter (\<lambda>e. date e = date first) (filter (matches m f t c None None) xs)
                 = first # filter (\<lambda>e. date e = date first) rest"
    by (rule sorted_first_least(3)[OF s])
qed

theorem summary_currency_counterexample:
  "summary (demo_store [in_currency ''USD'' (on_date ''2024-02-01''
                          (demo_expense ''EXP-20240201-0001'' ''food'' 10)),
                        demo_expense ''EXP-20240115-0001'' ''rent'' 20]) None None None None
     = Inr (\<lparr> count' = 2, grand_total = F64 30,
              totals_by_category = [(''rent'', F64 20), (''food'', F64 10)],
              currency' = ''BDT'', period = ''(all time)'' \<rparr>,
            demo_store [in_currency ''USD'' (on_date ''2024-02-01''
                          (demo_expense ''EXP-20240201-0001'' ''food'' 10)),
                        demo_expense ''EXP-20240115-0001'' ''rent'' 20])
   \<and> apply_filters [in_currency ''USD'' (on_date ''2024-02-01''
                          (demo_expense ''EXP-20240201-0001'' ''food'' 10)),
                     demo_expense ''EXP-20240115-0001'' ''rent'' 20] None None None None None None
       = [in_currency ''USD'' (on_date ''2024-02-01''
                          (demo_expense ''EXP-20240201-0001'' ''food'' 10)),
          demo_expense ''EXP-20240115-0001'' ''rent'' 20]
   \<and> currency (in_currency ''USD'' (on_date ''2024-02-01''
                          (demo_expense ''EXP-20240201-0001'' ''food'' 10))) = ''USD''"
proof -
  let ?u = "in_currency ''USD'' (on_date ''2024-02-01''
                          (demo_expense ''EXP-20240201-0001'' ''food'' 10))"
  let ?b = "demo_expense ''EXP-20240115-0001'' ''rent'' 20"
  have "summary (demo_store [?u, ?b]) None None None None
     = Inr (\<lparr> count' = 2, grand_total = F64 30,
              totals_by_category = [(''rent'', F64 20), (''food'', F64 10)],
              currency' = ''BDT'', period = ''(all time)'' \<rparr>, demo_store [?u, ?b])"
    by code_simp
  moreover have "apply_filters [?u, ?b] None None None None None None = [?u, ?b]"
    by (simp add: apply_filters_def)
  moreover have "currency ?u = ''USD''"
    by (simp add: in_currency_def)
  ultimately show ?thesis by blast
qed

theorem summary_uses_date_sorted_selection_witness:
  "contents (demo_store [in_currency ''USD'' (on_date ''2024-02-01''
                           (demo_expense ''EXP-20240201-0001'' ''food'' 10)),
                         demo_expense ''EXP-20240115-0001'' ''rent'' 20])
     = Document [in_currency ''USD'' (on_date ''2024-02-01''
                   (demo_expense ''EXP-20240201-0001'' ''food'' 10)),
                 demo_expense ''EXP-20240115-0001'' ''rent'' 20]
   \<and> sort_key date (filter (matches None None None None None None)
         [in_currency ''USD'' (on_date ''2024-02-01''
            (demo_expense ''EXP-20240201-0001'' ''food'' 10)),
          demo_expense ''EXP-20240115-0001'' ''rent'' 20])
       = [demo_expense ''EXP-20240115-0001'' ''rent'' 20,
          in_currency ''USD'' (on_date ''2024-02-01''
            (demo_expense ''EXP-20240201-0001'' ''food'' 10))]
   \<and> summary (demo_store [in_currency ''USD'' (on_date ''2024-02-01''
                           (demo_expense ''EXP-20240201-0001'' ''food'' 10)),
                          demo_expense ''EXP-20240115-0001'' ''rent'' 20]) None None None None
       = Inr (\<lparr> count' = length [demo_expense ''EXP-20240115-0001'' ''rent'' 20,
                       in_currency ''USD'' (on_date ''2024-02-01''
                         (demo_expense ''EXP-20240201-0001'' ''food'' 10))],
                grand_total = py_sum (map amount
                      [demo_expense ''EXP-20240115-0001'' ''rent'' 20,
                       in_currency ''USD'' (on_date ''2024-02-01''
                         (demo_expense ''EXP-20240201-0001'' ''food'' 10))]),
                totals_by_category = foldl category_step []
                      [demo_expense ''EXP-20240115-0001'' ''rent'' 20,
                       in_currency ''USD'' (on_date ''2024-02-01''
                         (demo_expense ''EXP-20240201-0001'' ''food'' 10))],
                currency' = currency (demo_expense ''EXP-20240115-0001'' ''rent'' 20),
                period = get_period_description None None None \<rparr>,
              demo_store [in_currency ''USD'' (on_date ''2024-02-01''
                            (demo_expense ''EXP-20240201-0001'' ''food'' 10)),
                          demo_expense ''EXP-20240115-0001'' ''rent'' 20])
   \<and> demo_expense ''EXP-20240115-0001'' ''rent'' 20
       \<in> set (filter (matches None None None None None None)
                [in_currency ''USD'' (on_date ''2024-02-01''
                   (demo_expense ''EXP-20240201-0001'' ''food'' 10)),
                 demo_expense ''EXP-20240115-0001'' ''rent'' 20])
   \<and> currency (demo_expense ''EXP-20240115-0001'' ''rent'' 20) = ''BDT''"
proof -
  let ?u = "in_currency ''USD'' (on_date ''2024-02-01''
                          (demo_expense ''EXP-20240201-0001'' ''food'' 10))"
  let ?b = "demo_expense ''EXP-20240115-0001'' ''rent'' 20"
  let ?sel = "filter (matches None None None None None None) [?u, ?b]"
  have c: "contents (demo_store [?u, ?b]) = Document [?u, ?b]"
    by (simp add: demo_store_def)
  have s: "sort_key date ?sel = [?b, ?u]"
    by code_simp
  note T = summary_uses_date_sorted_selection[OF c, of None None None None]
  from T have "summary (demo_store [?u, ?b]) None None None None =
             Inr ((case sort_key date ?sel of
                     [] \<Rightarrow> \<lparr> count' = 0, grand_total = 0, totals_by_category = [],
                             currency' = ''BDT'', period = get_period_description None None None \<rparr>
                   | first # rest \<Rightarrow>
                       \<lparr> count' = length (first # rest),
                         grand_total = py_sum (map amount (first # rest)),
                         totals_by_category = foldl category_step [] (first # rest),
                         currency' = currency first,
                         period = get_period_description None None None \<rparr>), demo_store [?u, ?b])"
    by blast
  then have 1: "summary (demo_store [?u, ?b]) None None None None =
      Inr (\<lparr> count' = length [?b, ?u], grand_total = py_sum (map amount [?b, ?u]),
             totals_by_category = foldl category_step [] [?b, ?u],
             currency' = currency ?b,
             period = get_period_description None None None \<rparr>, demo_store [?u, ?b])"
    unfolding s by (simp only: list.case)
  from T s have 2: "?b \<in> set ?sel"
    by blast
  have 3: "currency ?b = ''BDT''"
    by (simp add: demo_expense_def)
  from c s 1 2 3 show ?thesis by blast
qed

lemma summary_count_total:
  assumes "contents st = Document xs"
  shows "\<exists>s. summary st m f t c = Inr (s, st)
           \<and> count' s = length (filter (matches m f t c None None) xs)
           \<and> grand_total s = py_sum (map amount (sort_key date (filter (matches m f t c None None) xs)))
           \<and> period s = get_period_description m f t
           \<and> (filter (matches m f t c None None) xs = [] \<longrightarrow>
                s = \<lparr> count' = 0, grand_total = 0, totals_by_category = [],
                      currency' = ''BDT'', period = get_period_description m f t \<rparr>)"
proof (cases "sort_key date (filter (matches m f t c None None) xs)")
  case Nil
  then have e: "filter (matches m f t c None None) xs = []"
    by (metis length_0_conv length_sort)
  show ?thesis
    unfolding summary_Document[OF assms] Nil using e by (simp add: py_sum_def)
next
  case (Cons first rest)
  have "length (first # rest) = length (filter (matches m f t c None None) xs)"
    by (metis Cons length_sort)
  moreover have "filter (matches m f t c None None) xs \<noteq> []"
    using Cons by (metis list.distinct(1) sort_key_simps(1))
  ultimately show ?thesis
    unfolding summary_Document[OF assms] Cons by simp
qed

lemma period_cases:
  "(mo \<noteq> [] \<longrightarrow> get_period_description (Some mo) f t = ''('' @ mo @ '')'')
   \<and> (\<not> truthy m \<longrightarrow> fr \<noteq> [] \<longrightarrow> un \<noteq> [] \<longrightarrow>
        get_period_description m (Some fr) (Some un) = ''('' @ fr @ '' to '' @ un @ '')'')
   \<and> (\<not> truthy m \<longrightarrow> fr \<noteq> [] \<longrightarrow> \<not> truthy t \<longrightarrow>
        get_period_description m (Some fr) t = ''(from '' @ fr @ '')'')
   \<and> (\<not> truthy m \<longrightarrow> \<not> truthy f \<longrightarrow> un \<noteq> [] \<longrightarrow>
        get_period_description m f (Some un) = ''(to '' @ un @ '')'')
   \<and> (\<not> truthy m \<longrightarrow> \<not> truthy f \<longrightarrow> \<not> truthy t \<longrightarrow>
        get_period_description m f t = ''(all time)'')"
  by (simp add: get_period_description_def truthy_def)

lemma scenario_adds:
  "add_expense demo_env (demo_store []) (Some ''2024-01-15'') ''food'' (Float (F64 10)) '''' ''BDT''
     = Inr (demo_expense ''EXP-20240115-0001'' ''food'' 10,
            demo_store [demo_expense ''EXP-20240115-0001'' ''food'' 10])"
  "add_expense demo_env (demo_store [demo_expense ''EXP-20240115-0001'' ''food'' 10])
       (Some ''2024-01-15'') ''food'' (Float (F64 20)) '''' ''BDT''
     = Inr (demo_expense ''EXP-20240115-0002'' ''food'' 20,
            demo_store [demo_expense ''EXP-20240115-0001'' ''food'' 10,
                        demo_expense ''EXP-20240115-0002'' ''food'' 20])"
  "add_expense demo_env (demo_store [demo_expense ''EXP-20240115-0001'' ''food'' 10,
                                      demo_expense ''EXP-20240115-0002'' ''food'' 20])
       (Some ''2024-01-15'') ''transport'' (Float (F64 30)) '''' ''BDT''
     = Inr (demo_expense ''EXP-20240115-0003'' ''transport'' 30,
            demo_store [demo_expense ''EXP-20240115-0001'' ''food'' 10,
                        demo_expense ''EXP-20240115-0002'' ''food'' 20,
                        demo_expense ''EXP-20240115-0003'' ''transport'' 30])"
  by code_simp+

lemma scenario_summary:
  "summary (demo_store [demo_expense ''EXP-20240115-0001'' ''food'' 10,
                        demo_expense ''EXP-20240115-0002'' ''food'' 20,
                        demo_expense ''EXP-20240115-0003'' ''transport'' 30])
       (Some ''2024-01'') None None None
     = Inr (\<lparr> count' = 3, grand_total = F64 60,
              totals_by_category = [(''food'', F64 30), (''transport'', F64 30)],
              currency' = ''BDT'', period = ''(2024-01)'' \<rparr>,
            demo_store [demo_expense ''EXP-20240115-0001'' ''food'' 10,
                        demo_expense ''EXP-20240115-0002'' ''food'' 20,
                        demo_expense ''EXP-20240115-0003'' ''transport'' 30])"
  by code_simp

text \<open>
  Claim C4. \<open>summary\<close> returns the number of selected records as \<open>count\<close> and the sum of
  their amounts (added from left to right in date order, as \<open>sum\<close> does) as \<open>grand_total\<close>;
  when nothing is selected it returns count 0, total 0, no category totals, currency
  \<open>BDT\<close>. The period names the month when one is given, else the bounds that are given,
  else all time. Three expenses of 10, 20 and 30 added on 2024-01-15 under food, food and
  transport give count 3, total 60, food 30 and transport 30 for the month 2024-01.
\<close>

theorem summary_count_total_and_empty:
  assumes "contents st = Document xs"
  shows "(\<exists>s. summary st m f t c = Inr (s, st)
           \<and> count' s = length (filter (matches m f t c None None) xs)
           \<and> grand_total s = py_sum (map amount (sort_key date (filter (matches m f t c None None) xs)))
           \<and> period s = get_period_description m f t
           \<and> (filter (matches m f t c None None) xs = [] \<longrightarrow>
                s = \<lparr> count' = 0, grand_total = 0, totals_by_category = [],
                      currency' = ''BDT'', period = get_period_description m f t \<rparr>))
   \<and> (mo \<noteq> [] \<longrightarrow> get_period_description (Some mo) f t = ''('' @ mo @ '')'')
   \<and> (\<not> truthy m \<longrightarrow> fr \<noteq> [] \<longrightarrow> un \<noteq> [] \<longrightarrow>
        get_period_description m (Some fr) (Some un) = ''('' @ fr @ '' to '' @ un @ '')'')
   \<and> (\<not> truthy m \<longrightarrow> fr \<noteq> [] \<longrightarrow> \<not> truthy t \<longrightarrow>
        get_period_description m (Some fr) t = ''(from '' @ fr @ '')'')
   \<and> (\<not> truthy m \<longrightarrow> \<not> truthy f \<longrightarrow> un \<noteq> [] \<longrightarrow>
        get_period_description m f (Some un) = ''(to '' @ un @ '')'')
   \<and> (\<not> truthy m \<longrightarrow> \<not> truthy f \<longrightarrow> \<not> truthy t \<longrightarrow>
        get_period_description m f t = ''(all time)'')
   \<and> add_expense demo_env (demo_store []) (Some ''2024-01-15'') ''food'' (Float (F64 10)) '''' ''BDT''
       = Inr (demo_expense ''EXP-20240115-0001'' ''food'' 10,
              demo_store [demo_expense ''EXP-20240115-0001'' ''food'' 10])
   \<and> add_expense demo_env (demo_store [demo_expense ''EXP-20240115-0001'' ''food'' 10])
         (Some ''2024-01-15'') ''food'' (Float (F64 20)) '''' ''BDT''
       = Inr (demo_expense ''EXP-20240115-0002'' ''food'' 20,
              demo_store [demo_expense ''EXP-20240115-0001'' ''food'' 10,
                          demo_expense ''EXP-20240115-0002'' ''food'' 20])
   \<and> add_expense demo_env (demo_store [demo_expense ''EXP-20240115-0001'' ''food'' 10,
                                        demo_expense ''EXP-20240115-0002'' ''food'' 20])
         (Some ''2024-01-15'') ''transport'' (Float (F64 30)) '''' ''BDT''
       = Inr (demo_expense ''EXP-20240115-0003'' ''transport'' 30,
              demo_store [demo_expense ''EXP-20240115-0001'' ''food'' 10,
                          demo_expense ''EXP-20240115-0002'' ''food'' 20,
                          demo_expense ''EXP-20240115-0003'' ''transport'' 30])
   \<and> summary (demo_store [demo_expense ''EXP-20240115-0001'' ''food'' 10,
                          demo_expense ''EXP-20240115-0002'' ''food'' 20,
                          demo_expense ''EXP-20240115-0003'' ''transport'' 30])
         (Some ''2024-01'') None None None
       = Inr (\<lparr> count' = 3, grand_total = F64 60,
                totals_by_category = [(''food'', F64 30), (''transport'', F64 30)],
                currency' = ''BDT'', period = ''(2024-01)'' \<rparr>,
              demo_store [demo_expense ''EXP-20240115-0001'' ''food'' 10,
                          demo_expense ''EXP-20240115-0002'' ''food'' 20,
                          demo_expense ''EXP-20240115-0003'' ''transport'' 30])"
  using summary_count_total[OF assms, of m f t c] period_cases[of mo f t m fr un]
    scenario_adds scenario_summary
  by blast

theorem summary_count_total_and_empty_witness:
  "contents (demo_store [demo_expense ''EXP-20240115-0001'' ''food'' 10,
                         demo_expense ''EXP-20240115-0002'' ''food'' 20])
     = Document [demo_expense ''EXP-20240115-0001'' ''food'' 10,
                 demo_expense ''EXP-20240115-0002'' ''food'' 20]
   \<and> filter (matches (Some ''2025-03'') None None None None None)
         [demo_expense ''EXP-20240115-0001'' ''food'' 10,
          demo_expense ''EXP-20240115-0002'' ''food'' 20] = []
   \<and> summary (demo_store [demo_expense ''EXP-20240115-0001'' ''food'' 10,
                          demo_expense ''EXP-20240115-0002'' ''food'' 20])
         (Some ''2025-03'') None None None
       = Inr (\<lparr> count' = 0, grand_total = 0, totals_by_category = [],
                currency' = ''BDT'', period = ''(2025-03)'' \<rparr>,
              demo_store [demo_expense ''EXP-20240115-0001'' ''food'' 10,
                          demo_expense ''EXP-20240115-0002'' ''food'' 20])
   \<and> get_period_description None (Some ''2024-01-01'') (Some ''2024-01-31'')
       = ''(2024-01-01 to 2024-01-31)''
   \<and> get_period_description None (Some ''2024-01-01'') None = ''(from 2024-01-01)''
   \<and> get_period_description None (Some '''') (Some ''2024-01-31'') = ''(to 2024-01-31)''
   \<and> get_period_description (Some '''') None None = ''(all time)''"
proof -
  let ?xs = "[demo_expense ''EXP-20240115-0001'' ''food'' 10,
              demo_expense ''EXP-20240115-0002'' ''food'' 20]"
  let ?st = "demo_store ?xs"
  have c: "contents ?st = Document ?xs"
    by (simp add: demo_store_def)
  have e: "filter (matches (Some ''2025-03'') None None None None None) ?xs = []"
    by code_simp
  have tr: "\<not> truthy None" "\<not> truthy (Some '''')" "''2025-03'' \<noteq> []"
    "''2024-01-01'' \<noteq> []" "''2024-01-31'' \<noteq> []"
    by (simp_all add: truthy_def)
  note T1 = summary_count_total_and_empty[OF c, of "Some ''2025-03''" None None None
      "''2025-03''" "''2024-01-01''" "''2024-01-31''"]
  from T1 e tr(3) have 1: "summary ?st (Some ''2025-03'') None None None
       = Inr (\<lparr> count' = 0, grand_total = 0, totals_by_category = [],
                currency' = ''BDT'', period = ''(2025-03)'' \<rparr>, ?st)"
    by auto
  note T2 = summary_count_total_and_empty[OF c, of None None None None
      "''2025-03''" "''2024-01-01''" "''2024-01-31''"]
  from T2 tr have 2: "get_period_description None (Some ''2024-01-01'') (Some ''2024-01-31'')
       = ''(2024-01-01 to 2024-01-31)''"
    and 3: "get_period_description None (Some ''2024-01-01'') None = ''(from 2024-01-01)''"
    by auto
  note T3 = summary_count_total_and_empty[OF c, of None "Some ''''" None None
      "''2025-03''" "''2024-01-01''" "''2024-01-31''"]
  from T3 tr have 4: "get_period_description None (Some '''') (Some ''2024-01-31'')
       = ''(to 2024-01-31)''"
    by auto
  note T4 = summary_count_total_and_empty[OF c, of "Some ''''" None None None
      "''2025-03''" "''2024-01-01''" "''2024-01-31''"]
  from T4 tr have 5: "get_period_description (Some '''') None None = ''(all time)''"
    by auto
  from c e 1 2 3 4 5 show ?thesis by blast
qed

section \<open>Category totals\<close>



















end
